theory Spec2Isabelle
  imports
    Main
    "HOL-Library.Sublist"
    "HOL-Library.Char_ord"
    "HOL-Library.List_Lexorder"
    "HOL-Library.Product_Lexorder"
begin

section \<open>Strings as the script uses them\<close>

text \<open>
  Python \<open>str\<close> and \<open>bytes\<close> are both modelled as \<open>string\<close> (ASCII text);
  \<open>.decode()\<close> is the identity on such text.  The order on strings is the
  lexicographic order on character codes, which is how Python compares \<open>str\<close>.
\<close>

definition is_digit :: "char \<Rightarrow> bool" where
  "is_digit c = (CHR ''0'' \<le> c \<and> c \<le> CHR ''9'')"

definition is_idchar :: "char \<Rightarrow> bool" where
  \<comment> \<open>the character class \<open>[0-9a-zA-Z-]\<close>\<close>
  "is_idchar c =
     (is_digit c \<or> (CHR ''a'' \<le> c \<and> c \<le> CHR ''z'') \<or> (CHR ''A'' \<le> c \<and> c \<le> CHR ''Z'')
      \<or> c = CHR ''-'')"

definition digit_val :: "char \<Rightarrow> nat" where
  "digit_val c = of_char c - 48"

definition nat_of_dec :: "string \<Rightarrow> nat" where
  \<comment> \<open>\<open>int(x)\<close> on a string of decimal digits\<close>
  "nat_of_dec s = foldl (\<lambda>n c. 10 * n + digit_val c) 0 s"

definition digit_char :: "nat \<Rightarrow> char" where
  "digit_char d = char_of (48 + d)"

fun dec_of_nat :: "nat \<Rightarrow> string" where
  "dec_of_nat n =
     (if n < 10 then [digit_char n] else dec_of_nat (n div 10) @ [digit_char (n mod 10)])"

declare dec_of_nat.simps [simp del]

definition dec_of_int :: "int \<Rightarrow> string" where
  "dec_of_int i = (if i < 0 then CHR ''-'' # dec_of_nat (nat (- i)) else dec_of_nat (nat i))"

fun split_on :: "char \<Rightarrow> string \<Rightarrow> string list" where
  \<comment> \<open>\<open>s.split(sep)\<close> for a one-character separator\<close>
  "split_on sep [] = [[]]"
| "split_on sep (c # cs) =
     (if c = sep then [] # split_on sep cs
      else (case split_on sep cs of [] \<Rightarrow> [[c]] | p # ps \<Rightarrow> (c # p) # ps))"

definition cut :: "char \<Rightarrow> string \<Rightarrow> string \<times> string option" where
  \<comment> \<open>the text before the first \<open>sep\<close>, and the text after it when there is one\<close>
  "cut sep s =
     (let r = dropWhile (\<lambda>c. c \<noteq> sep) s
      in (takeWhile (\<lambda>c. c \<noteq> sep) s, if r = [] then None else Some (tl r)))"

fun contains :: "string \<Rightarrow> string \<Rightarrow> bool" where
  \<comment> \<open>\<open>sub in s\<close>\<close>
  "contains sub [] = (sub = [])"
| "contains sub (c # cs) = (prefix sub (c # cs) \<or> contains sub cs)"

fun replace_first :: "string \<Rightarrow> string \<Rightarrow> string \<Rightarrow> string" where
  \<comment> \<open>\<open>s.replace(old, new, 1)\<close>\<close>
  "replace_first old new [] = (if old = [] then new else [])"
| "replace_first old new (c # cs) =
     (if prefix old (c # cs) then new @ drop (length old) (c # cs)
      else c # replace_first old new cs)"

definition is_space :: "char \<Rightarrow> bool" where
  \<comment> \<open>ASCII characters for which \<open>str.isspace\<close> holds\<close>
  "is_space c = (of_char c \<in> {9, 10, 11, 12, 13, 28, 29, 30, 31, 32 :: nat})"

definition strip :: "string \<Rightarrow> string" where
  "strip s = rev (dropWhile is_space (rev (dropWhile is_space s)))"

section \<open>The semver library: parsing, printing, comparing\<close>

text \<open>
  The script calls \<open>semver.VersionInfo.parse\<close>, \<open>max\<close> (which uses the
  version's \<open>>\<close>) and \<open>str\<close>.  These library functions are modelled after the
  library's implementation: the regular expression of \<open>parse\<close>, \<open>__str__\<close>, and
  \<open>compare\<close> with its helper \<open>_nat_cmp\<close>.
\<close>

record version =
  major :: nat
  minor :: nat
  patch :: nat
  prerelease :: "string option"
  build :: "string option"

definition numeric_id :: "string \<Rightarrow> bool" where
  \<comment> \<open>\<open>0|[1-9]\d*\<close>\<close>
  "numeric_id s = (s \<noteq> [] \<and> list_all is_digit s \<and> (s = ''0'' \<or> hd s \<noteq> CHR ''0''))"

definition prerelease_id :: "string \<Rightarrow> bool" where
  \<comment> \<open>\<open>0|[1-9]\d*|\d*[a-zA-Z-][0-9a-zA-Z-]*\<close>\<close>
  "prerelease_id s =
     (if list_all is_digit s then numeric_id s else list_all is_idchar s)"

definition build_id :: "string \<Rightarrow> bool" where
  \<comment> \<open>\<open>[0-9a-zA-Z-]+\<close>\<close>
  "build_id s = (s \<noteq> [] \<and> list_all is_idchar s)"

definition chomp :: "string \<Rightarrow> string" where
  \<comment> \<open>the regular expression's \<open>$\<close> also matches before one final newline\<close>
  "chomp s = (if s \<noteq> [] \<and> last s = CHR 0x0A then butlast s else s)"

definition semver_parse :: "string \<Rightarrow> version option" where
  "semver_parse s0 =
     (let (cp, bld) = cut CHR ''+'' (chomp s0);
          (core, pre) = cut CHR ''-'' cp
      in case split_on CHR ''.'' core of
           [ma, mi, pa] \<Rightarrow>
             if numeric_id ma \<and> numeric_id mi \<and> numeric_id pa
                \<and> (case pre of None \<Rightarrow> True
                    | Some p \<Rightarrow> list_all prerelease_id (split_on CHR ''.'' p))
                \<and> (case bld of None \<Rightarrow> True
                    | Some b \<Rightarrow> list_all build_id (split_on CHR ''.'' b))
             then Some \<lparr>major = nat_of_dec ma, minor = nat_of_dec mi, patch = nat_of_dec pa,
                        prerelease = pre, build = bld\<rparr>
             else None
         | _ \<Rightarrow> None)"

definition truthy_str :: "string option \<Rightarrow> bool" where
  \<comment> \<open>Python truthiness of an optional string: neither \<open>None\<close> nor empty\<close>
  "truthy_str x = (case x of None \<Rightarrow> False | Some s \<Rightarrow> s \<noteq> [])"

definition version_str :: "version \<Rightarrow> string" where
  \<comment> \<open>\<open>__str__\<close>\<close>
  "version_str v =
     dec_of_nat (major v) @ ''.'' @ dec_of_nat (minor v) @ ''.'' @ dec_of_nat (patch v)
     @ (if truthy_str (prerelease v) then ''-'' @ the (prerelease v) else [])
     @ (if truthy_str (build v) then ''+'' @ the (build v) else [])"

definition py_cmp :: "'a::linorder \<Rightarrow> 'a \<Rightarrow> int" where
  \<comment> \<open>\<open>_cmp(a, b) = (a > b) - (a < b)\<close>\<close>
  "py_cmp a b = (if b < a then 1 else 0) - (if a < b then 1 else 0)"

datatype tag = TInt nat | TStr string

definition conv_tag :: "string \<Rightarrow> tag" where
  \<comment> \<open>\<open>int(x) if re.match(r"^\d+$", x) else x\<close>\<close>
  "conv_tag x = (if x \<noteq> [] \<and> list_all is_digit x then TInt (nat_of_dec x) else TStr x)"

fun cmp_prerelease_tag :: "tag \<Rightarrow> tag \<Rightarrow> int" where
  "cmp_prerelease_tag (TInt a) (TInt b) = py_cmp a b"
| "cmp_prerelease_tag (TInt a) (TStr b) = - 1"
| "cmp_prerelease_tag (TStr a) (TInt b) = 1"
| "cmp_prerelease_tag (TStr a) (TStr b) = py_cmp a b"

fun cmp_loop :: "(tag \<times> tag) list \<Rightarrow> int \<Rightarrow> int" where
  \<comment> \<open>the \<open>for ... else\<close> of \<open>_nat_cmp\<close>; \<open>d\<close> is the value of the \<open>else\<close> branch\<close>
  "cmp_loop [] d = d"
| "cmp_loop ((x, y) # ps) d =
     (let r = cmp_prerelease_tag x y in if r \<noteq> 0 then r else cmp_loop ps d)"

definition nat_cmp :: "string option \<Rightarrow> string option \<Rightarrow> int" where
  "nat_cmp a0 b0 =
     (let a = (if truthy_str a0 then the a0 else []);
          b = (if truthy_str b0 then the b0 else []);
          a_parts = map conv_tag (split_on CHR ''.'' a);
          b_parts = map conv_tag (split_on CHR ''.'' b)
      in cmp_loop (zip a_parts b_parts) (py_cmp (length a) (length b)))"

definition compare :: "version \<Rightarrow> version \<Rightarrow> int" where
  "compare v w =
     (let x = py_cmp (major v, minor v, patch v) (major w, minor w, patch w)
      in if x \<noteq> 0 then x
         else let rccmp = nat_cmp (prerelease v) (prerelease w)
              in if rccmp = 0 then 0
                 else if \<not> truthy_str (prerelease v) then 1
                 else if \<not> truthy_str (prerelease w) then - 1
                 else rccmp)"

definition version_gt :: "version \<Rightarrow> version \<Rightarrow> bool" where
  \<comment> \<open>\<open>__gt__\<close>\<close>
  "version_gt v w = (0 < compare v w)"

fun py_max :: "version \<Rightarrow> version list \<Rightarrow> version" where
  \<comment> \<open>\<open>max\<close> over a non-empty sequence: a later item replaces the running maximum
      only when it is strictly greater\<close>
  "py_max m [] = m"
| "py_max m (x # xs) = py_max (if version_gt x m then x else m) xs"

section \<open>Decoded JSON and the jq filter\<close>

text \<open>
  A value as \<open>json.loads\<close> returns it.  Objects are association lists in key order;
  numbers are the integers the tracker emits.
\<close>

datatype json =
  JNull | JBool bool | JNum int | JStr string | JArr "json list" | JObj "(string \<times> json) list"

definition jq_each :: "json \<Rightarrow> json list option" where
  \<comment> \<open>\<open>.[]\<close>: the elements of an array, the values of an object, an error otherwise\<close>
  "jq_each j = (case j of JArr xs \<Rightarrow> Some xs | JObj kvs \<Rightarrow> Some (map snd kvs) | _ \<Rightarrow> None)"

definition jq_name :: "json \<Rightarrow> json option" where
  \<comment> \<open>\<open>.name\<close>: the field of an object (\<open>null\<close> when absent), \<open>null\<close> of \<open>null\<close>,
      an error otherwise\<close>
  "jq_name j =
     (case j of
        JObj kvs \<Rightarrow> Some (case map_of kvs ''name'' of None \<Rightarrow> JNull | Some v \<Rightarrow> v)
      | JNull \<Rightarrow> Some JNull
      | _ \<Rightarrow> None)"

definition ltrimstr :: "string \<Rightarrow> string \<Rightarrow> string" where
  "ltrimstr p s = (if prefix p s then drop (length p) s else s)"

definition jq_ltrimstr :: "string \<Rightarrow> json \<Rightarrow> json" where
  \<comment> \<open>\<open>ltrimstr(p)\<close>: strips the prefix from a string that has it, and is the identity
      on everything else\<close>
  "jq_ltrimstr p j = (case j of JStr s \<Rightarrow> JStr (ltrimstr p s) | _ \<Rightarrow> j)"

definition jq_tags :: "json \<Rightarrow> json list option" where
  \<comment> \<open>\<open>map(.name | ltrimstr("v"))\<close>, first output; \<open>None\<close> when jq reports an error\<close>
  "jq_tags j =
     (case jq_each j of
        None \<Rightarrow> None
      | Some xs \<Rightarrow> those (map (\<lambda>x. map_option (jq_ltrimstr ''v'') (jq_name x)) xs))"

section \<open>Effects, outcomes and the environment of a run\<close>

datatype exn =
  JSONDecodeError | JqError | TypeError | ValueError | AttributeError | ClientError

datatype effect =
    Exec "string list"  \<comment> \<open>a subprocess started by \<open>run\<close>, with its argument vector\<close>
  | Head string  \<comment> \<open>an HTTP HEAD request\<close>
  | ReadText string  \<comment> \<open>\<open>Path(p).read_text\<close>\<close>
  | WriteText string string  \<comment> \<open>\<open>Path(p).write_text(s)\<close>\<close>
  | ChangelogUpdate string string string  \<comment> \<open>\<open>changelog.update(version, title, dir)\<close>\<close>
  | Print string  \<comment> \<open>a line on standard output\<close>
  | PrintErr string  \<comment> \<open>a line on standard error\<close>

datatype 'a result =
    Return 'a
  | SysExit int  \<comment> \<open>\<open>sys.exit(n)\<close>\<close>
  | Uncaught exn  \<comment> \<open>an exception nothing catches\<close>

type_synonym 'a io = "effect list \<times> 'a result"

text \<open>
  Everything the script reads from outside: the module constants and environment
  variables, what each subprocess answers (standard output, standard error, return
  code), the status of a HEAD request (\<open>None\<close> when the HTTP client raises), the text
  of the page-generator file, the answer of the changelog library, \<open>json.loads\<close>
  (\<open>None\<close> when it raises) and Python's \<open>repr\<close> of a decoded list or dict.
\<close>

record env =
  REPO :: string
  GITHUB_WORKSPACE :: string
  DEFAULT_PLOTLY :: string
  FILE_PATH :: string
  proc :: "string list \<Rightarrow> string \<times> string \<times> int"
  head_status :: "string \<Rightarrow> nat option"
  file_text :: string
  changelog_update :: "string \<Rightarrow> string \<Rightarrow> string \<Rightarrow> bool"
  json_loads :: "string \<Rightarrow> json option"
  py_repr :: "json \<Rightarrow> string"

definition return_io :: "'a \<Rightarrow> 'a io" where
  "return_io x = ([], Return x)"

definition bind_io :: "'a io \<Rightarrow> ('a \<Rightarrow> 'b io) \<Rightarrow> 'b io" where
  \<comment> \<open>sequencing: an exit or an exception ends the run where it happens\<close>
  "bind_io m f =
     (case m of
        (t, Return x) \<Rightarrow> (case f x of (t', r) \<Rightarrow> (t @ t', r))
      | (t, SysExit n) \<Rightarrow> (t, SysExit n)
      | (t, Uncaught x) \<Rightarrow> (t, Uncaught x))"

definition sys_exit :: "int \<Rightarrow> 'a io" where
  "sys_exit n = ([], SysExit n)"

definition raise :: "exn \<Rightarrow> 'a io" where
  "raise x = ([], Uncaught x)"

definition print :: "string \<Rightarrow> unit io" where
  "print s = ([Print s], Return ())"

definition print_err :: "string \<Rightarrow> unit io" where
  "print_err s = ([PrintErr s], Return ())"

definition trace :: "'a io \<Rightarrow> effect list" where
  "trace m = fst m"

definition outcome :: "'a io \<Rightarrow> 'a result" where
  "outcome m = snd m"

definition exit_code :: "'a io \<Rightarrow> int" where
  \<comment> \<open>the exit status of the interpreter: 0 after a normal end, the argument of
      \<open>sys.exit\<close>, 1 after an uncaught exception\<close>
  "exit_code m = (case snd m of Return _ \<Rightarrow> 0 | SysExit n \<Rightarrow> n | Uncaught _ \<Rightarrow> 1)"

section \<open>The script\<close>

definition run :: "env \<Rightarrow> string list \<Rightarrow> (string \<times> string \<times> int) io" where
  "run e commands = ([Exec commands], Return (proc e commands))"

definition verify_url :: "env \<Rightarrow> string \<Rightarrow> bool io" where
  "verify_url e url =
     ([Head url], case head_status e url of None \<Rightarrow> Uncaught ClientError
                  | Some status \<Rightarrow> Return (status = 200))"

fun parse_all :: "json list \<Rightarrow> exn + version list" where
  \<comment> \<open>\<open>[semver.VersionInfo.parse(v) for v in tags]\<close>: \<open>TypeError\<close> on a value that is
      not a string, \<open>ValueError\<close> on a string that is not a version\<close>
  "parse_all [] = Inr []"
| "parse_all (JStr s # r) =
     (case semver_parse s of
        None \<Rightarrow> Inl ValueError
      | Some v \<Rightarrow> (case parse_all r of Inl x \<Rightarrow> Inl x | Inr vs \<Rightarrow> Inr (v # vs)))"
| "parse_all (_ # r) = Inl TypeError"

definition tags_command :: "string list" where
  "tags_command = [''gh'', ''api'', ''repos/plotly/plotly.js/tags'', ''--paginate'']"

definition get_latest_version :: "env \<Rightarrow> string io" where
  "get_latest_version e =
     bind_io (run e tags_command) (\<lambda>(out, err, _).
       case json_loads e out of
         None \<Rightarrow> raise JSONDecodeError
       | Some j \<Rightarrow>
           (case jq_tags j of
              None \<Rightarrow> raise JqError
            | Some tags \<Rightarrow>
                (case parse_all tags of
                   Inl x \<Rightarrow> raise x
                 | Inr versions \<Rightarrow>
                     if err \<noteq> [] then bind_io (print err) (\<lambda>_. sys_exit 1)
                     else (case versions of
                             [] \<Rightarrow> raise ValueError
                           | v # vs \<Rightarrow> return_io (version_str (py_max v vs))))))"

definition branch_name :: "string \<Rightarrow> string" where
  "branch_name latest_version = ''bot/update-cdn-'' @ latest_version"

definition pr_title :: "string \<Rightarrow> string" where
  "pr_title latest_version = ''Update Plotly.js CDN to v'' @ latest_version"

definition pr_body :: "string \<Rightarrow> string" where
  "pr_body latest_version = ''This PR updates the CDN URL to v'' @ latest_version @ ''.''"

definition branch_command :: "env \<Rightarrow> string \<Rightarrow> string list" where
  "branch_command e branch =
     [''gh'', ''api'', ''repos/'' @ REPO e @ ''/branches/'' @ branch, ''--silent'']"

definition pr_list_command :: "env \<Rightarrow> string \<Rightarrow> string list" where
  "pr_list_command e branch =
     [''gh'', ''pr'', ''list'', ''-R'', REPO e, ''-H'', branch, ''--state'', ''all'']"

definition checkout_command :: "string \<Rightarrow> string list" where
  "checkout_command branch = [''git'', ''checkout'', ''-b'', branch]"

definition add_command :: "string list" where
  "add_command = [''git'', ''add'', ''.'']"

definition commit_command :: "string \<Rightarrow> string list" where
  "commit_command title =
     [''git'', ''-c'', ''user.name='' @ [CHR 0x27] @ ''github-actions'' @ [CHR 0x27],
      ''-c'', ''user.email='' @ [CHR 0x27] @ ''github-actions@github.com'' @ [CHR 0x27],
      ''commit'', ''-m'', ''chore: '' @ title]"

definition push_command :: "string \<Rightarrow> string list" where
  "push_command branch = [''git'', ''push'', ''-u'', ''origin'', branch]"

definition pr_create_command :: "string \<Rightarrow> string \<Rightarrow> string \<Rightarrow> string list" where
  "pr_create_command branch title body =
     [''gh'', ''pr'', ''create'', ''-B'', ''master'', ''-H'', branch, ''-t'', title, ''-b'', body]"

definition create_pr :: "env \<Rightarrow> string \<Rightarrow> unit io" where
  "create_pr e latest_version =
     (let branch = branch_name latest_version;
          title = pr_title latest_version;
          body = pr_body latest_version
      in
      bind_io (run e (branch_command e branch)) (\<lambda>(_, err, brc_eval).
      bind_io
        (if brc_eval = 0
         then bind_io (print_err (''The branch '' @ branch @ '' already exists''))
                (\<lambda>_. sys_exit 1)
         else if \<not> contains ''HTTP 404'' err
         then bind_io (print_err err) (\<lambda>_. sys_exit 1)
         else return_io ()) (\<lambda>_.
      bind_io (run e (pr_list_command e branch)) (\<lambda>(pr, _, _).
      bind_io
        (if pr \<noteq> []
         then bind_io
                (print_err (''Pull request for '' @ [CHR 0x27] @ branch @ [CHR 0x27]
                            @ '' already exists''))
                (\<lambda>_. sys_exit 1)
         else return_io ()) (\<lambda>_.
      bind_io
        ([ChangelogUpdate latest_version title (GITHUB_WORKSPACE e)],
         Return (changelog_update e latest_version title (GITHUB_WORKSPACE e)))
        (\<lambda>file_updated.
      bind_io
        (if \<not> file_updated
         then bind_io (print_err ''Failed to update changelog'') (\<lambda>_. sys_exit 1)
         else return_io ()) (\<lambda>_.
      bind_io (run e (checkout_command branch)) (\<lambda>_.
      bind_io (run e add_command) (\<lambda>_.
      bind_io (run e (commit_command title)) (\<lambda>_.
      bind_io (run e (push_command branch)) (\<lambda>(_, push_err, push_eval).
      bind_io
        (if push_eval \<noteq> 0 then bind_io (print_err push_err) (\<lambda>_. sys_exit 1)
         else return_io ()) (\<lambda>_.
      bind_io (run e (pr_create_command branch title body)) (\<lambda>(new_pr, pr_err, pr_eval).
      bind_io
        (if pr_eval \<noteq> 0 then bind_io (print_err pr_err) (\<lambda>_. sys_exit 1)
         else return_io ()) (\<lambda>_.
      print (''Pull request: '' @ strip new_pr)))))))))))))))"

definition truthy :: "json \<Rightarrow> bool" where
  \<comment> \<open>Python truthiness of a decoded value\<close>
  "truthy j =
     (case j of JNull \<Rightarrow> False | JBool b \<Rightarrow> b | JNum n \<Rightarrow> n \<noteq> 0 | JStr s \<Rightarrow> s \<noteq> []
      | JArr xs \<Rightarrow> xs \<noteq> [] | JObj kvs \<Rightarrow> kvs \<noteq> [])"

definition py_iter :: "json \<Rightarrow> exn + json list" where
  \<comment> \<open>what a \<open>for\<close> loop ranges over: the elements of a list, the keys of a dict, the
      characters of a string; other values are not iterable\<close>
  "py_iter j =
     (case j of JArr xs \<Rightarrow> Inr xs | JObj kvs \<Rightarrow> Inr (map (\<lambda>kv. JStr (fst kv)) kvs)
      | JStr s \<Rightarrow> Inr (map (\<lambda>c. JStr [c]) s) | _ \<Rightarrow> Inl TypeError)"

definition dict_get :: "json \<Rightarrow> string \<Rightarrow> exn + json option" where
  \<comment> \<open>\<open>x.get(k)\<close>: only a dict has the method\<close>
  "dict_get j k = (case j of JObj kvs \<Rightarrow> Inr (map_of kvs k) | _ \<Rightarrow> Inl AttributeError)"

definition py_format :: "env \<Rightarrow> json option \<Rightarrow> string" where
  \<comment> \<open>how an f-string renders the result of \<open>.get\<close>\<close>
  "py_format e x =
     (case x of
        None \<Rightarrow> ''None''
      | Some JNull \<Rightarrow> ''None''
      | Some (JBool b) \<Rightarrow> (if b then ''True'' else ''False'')
      | Some (JNum n) \<Rightarrow> dec_of_int n
      | Some (JStr s) \<Rightarrow> s
      | Some j \<Rightarrow> py_repr e j)"

definition issue_list_command :: "env \<Rightarrow> string \<Rightarrow> string list" where
  "issue_list_command e title =
     [''gh'', ''issue'', ''list'', ''-R'', REPO e, ''--search'', title, ''--state'', ''all'',
      ''--json'', ''number,state'']"

definition issue_exists_line :: "string \<Rightarrow> string" where
  "issue_exists_line title =
     ''Issue '' @ [CHR 0x27] @ title @ [CHR 0x27] @ '' already exists in:''"

definition issue_link :: "env \<Rightarrow> json option \<Rightarrow> string" where
  "issue_link e number = ''https://github.com/'' @ REPO e @ ''/issues/'' @ py_format e number"

fun issue_loop :: "env \<Rightarrow> string \<Rightarrow> json list \<Rightarrow> unit io" where
  \<comment> \<open>the \<open>for issue in issues\<close> loop of \<open>verify_issue\<close>\<close>
  "issue_loop e title [] = return_io ()"
| "issue_loop e title (issue # rest) =
     (case dict_get issue ''state'' of
        Inl x \<Rightarrow> raise x
      | Inr st \<Rightarrow>
          if st = Some (JStr ''OPEN'')
          then (case dict_get issue ''number'' of
                  Inl x \<Rightarrow> raise x
                | Inr number \<Rightarrow>
                    bind_io (print (issue_exists_line title)) (\<lambda>_.
                    bind_io (print (issue_link e number)) (\<lambda>_. sys_exit 1)))
          else issue_loop e title rest)"

definition verify_issue :: "env \<Rightarrow> string \<Rightarrow> unit io" where
  "verify_issue e title =
     bind_io (run e (issue_list_command e title)) (\<lambda>(issue, _, _).
       case json_loads e issue of
         None \<Rightarrow> raise JSONDecodeError
       | Some issues \<Rightarrow>
           if truthy issues
           then (case py_iter issues of
                   Inl x \<Rightarrow> raise x
                 | Inr items \<Rightarrow>
                     bind_io (issue_loop e title items) (\<lambda>_.
                     bind_io (print (''Issue '' @ [CHR 0x27] @ title @ [CHR 0x27] @ '' is closed''))
                       (\<lambda>_. sys_exit 0)))
           else return_io ())"

definition issue_create_command :: "env \<Rightarrow> string \<Rightarrow> string \<Rightarrow> string list" where
  "issue_create_command e title body =
     [''gh'', ''issue'', ''create'', ''-R'', REPO e, ''-t'', title, ''-b'', body]"

definition create_issue :: "env \<Rightarrow> string \<Rightarrow> string \<Rightarrow> unit io" where
  "create_issue e title body =
     bind_io (run e (issue_create_command e title body)) (\<lambda>(new_issue, issue_err, _).
     bind_io
       (if issue_err \<noteq> [] then bind_io (print issue_err) (\<lambda>_. sys_exit 1)
        else return_io ()) (\<lambda>_.
     print (''The issue '' @ [CHR 0x27] @ title @ [CHR 0x27] @ '' was created in ''
            @ strip new_issue)))"

definition cdn_url :: "string \<Rightarrow> string" where
  "cdn_url latest_version = ''https://cdn.plot.ly/plotly-'' @ latest_version @ ''.js''"

definition issue_title :: "string \<Rightarrow> string" where
  "issue_title latest_version = ''CDN not reachable for Plotly.js v'' @ latest_version"

definition issue_body :: "string \<Rightarrow> string" where
  "issue_body new_cdn = ''URL: '' @ new_cdn @ '' - invalid url''"

definition main :: "env \<Rightarrow> unit io" where
  "main e =
     bind_io (get_latest_version e) (\<lambda>latest_version.
       let new_cdn = cdn_url latest_version in
       if new_cdn = DEFAULT_PLOTLY e
       then bind_io (print ''Already up to date'') (\<lambda>_. sys_exit 0)
       else
         bind_io (verify_url e new_cdn) (\<lambda>cdn_exists.
           if cdn_exists
           then
             bind_io ([ReadText (FILE_PATH e)], Return (file_text e)) (\<lambda>text.
             let s = replace_first (DEFAULT_PLOTLY e) new_cdn text in
             bind_io ([WriteText (FILE_PATH e) s], Return ()) (\<lambda>_.
             create_pr e latest_version))
           else
             (let title = issue_title latest_version;
                  body = issue_body new_cdn
              in bind_io (verify_issue e title) (\<lambda>_. create_issue e title body))))"

section \<open>What a trace shows\<close>

fun commands :: "effect list \<Rightarrow> string list list" where
  \<comment> \<open>the subprocesses of a trace, in order\<close>
  "commands [] = []"
| "commands (Exec c # t) = c # commands t"
| "commands (_ # t) = commands t"

fun file_writes :: "effect list \<Rightarrow> (string \<times> string) list" where
  \<comment> \<open>the \<open>write_text\<close> calls of a trace: path and new contents\<close>
  "file_writes [] = []"
| "file_writes (WriteText p s # t) = (p, s) # file_writes t"
| "file_writes (_ # t) = file_writes t"

definition git_commands :: "effect list \<Rightarrow> string list list" where
  "git_commands t = filter (\<lambda>c. take 1 c = [''git'']) (commands t)"

definition pr_creations :: "effect list \<Rightarrow> string list list" where
  "pr_creations t = filter (\<lambda>c. take 3 c = [''gh'', ''pr'', ''create'']) (commands t)"

definition issue_creations :: "effect list \<Rightarrow> string list list" where
  "issue_creations t = filter (\<lambda>c. take 3 c = [''gh'', ''issue'', ''create'']) (commands t)"

text \<open>The three parts of what a subprocess answers.\<close>

definition stdout_of :: "env \<Rightarrow> string list \<Rightarrow> string" where
  "stdout_of e c = fst (proc e c)"

definition stderr_of :: "env \<Rightarrow> string list \<Rightarrow> string" where
  "stderr_of e c = fst (snd (proc e c))"

definition returncode_of :: "env \<Rightarrow> string list \<Rightarrow> int" where
  "returncode_of e c = snd (snd (proc e c))"



definition pr_steps :: "env \<Rightarrow> string \<Rightarrow> effect list" where
  \<comment> \<open>the effects of \<open>create_pr\<close> from the branch lookup up to the push\<close>
  "pr_steps e v =
     [Exec (branch_command e (branch_name v)), Exec (pr_list_command e (branch_name v)),
      ChangelogUpdate v (pr_title v) (GITHUB_WORKSPACE e),
      Exec (checkout_command (branch_name v)), Exec add_command,
      Exec (commit_command (pr_title v)), Exec (push_command (branch_name v))]"

section \<open>Semantic-version precedence as the standard words it\<close>










section \<open>Sample environments\<close>

text \<open>
  Canned answers of the outside world, used to evaluate the script on concrete runs.
  The upstream tags are those of the specification's example; the embedded constant
  names version 1.9.9.
\<close>

definition tag_entry :: "string \<Rightarrow> json" where
  "tag_entry n = JObj [(''name'', JStr n), (''node_id'', JStr ''T_x'')]"

definition canned_proc :: "string list \<Rightarrow> string \<times> string \<times> int" where
  "canned_proc c =
     (if c = tags_command then (''tags.json'', [], 0)
      else if take 2 c = [''gh'', ''api'']
      then ([], ''gh: Branch not found (HTTP 404)'', 1)
      else if take 3 c = [''gh'', ''pr'', ''create'']
      then (''https://github.com/plotly/Kaleido/pull/7'' @ [CHR 0x0A], [], 0)
      else if take 3 c = [''gh'', ''issue'', ''list''] then (''issues.json'', [], 0)
      else if take 3 c = [''gh'', ''issue'', ''create'']
      then (''https://github.com/plotly/Kaleido/issues/8'' @ [CHR 0x0A], [], 0)
      else ([], [], 0))"

definition canned_loads :: "json \<Rightarrow> string \<Rightarrow> json option" where
  "canned_loads issues s =
     (if s = ''tags.json''
      then Some (JArr [tag_entry ''v1.2.0'', tag_entry ''v1.10.0'', tag_entry ''v1.9.9''])
      else if s = ''issues.json'' then Some issues
      else None)"

definition sample_env :: "json \<Rightarrow> env" where
  \<comment> \<open>the argument is the decoded answer of the issue listing\<close>
  "sample_env issues =
     \<lparr>REPO = ''plotly/Kaleido'', GITHUB_WORKSPACE = ''/ws'',
      DEFAULT_PLOTLY = cdn_url ''1.9.9'', FILE_PATH = ''/ws/_page_generator.py'',
      proc = canned_proc, head_status = (\<lambda>_. Some 200),
      file_text = ''DEFAULT_PLOTLY = '' @ cdn_url ''1.9.9'',
      changelog_update = (\<lambda>_ _ _. True),
      json_loads = canned_loads issues, py_repr = (\<lambda>_. [])\<rparr>"

definition answering :: "env \<Rightarrow> string list \<Rightarrow> string \<times> string \<times> int \<Rightarrow> env" where
  \<comment> \<open>the same environment, with one subprocess answering differently\<close>
  "answering e c r = e\<lparr>proc := (proc e)(c := r)\<rparr>"

definition unreachable_env :: "json \<Rightarrow> env" where
  "unreachable_env issues = (sample_env issues)\<lparr>head_status := (\<lambda>_. Some 404)\<rparr>"


definition changelog_failing_env :: env where
  "changelog_failing_env = (sample_env (JArr []))\<lparr>changelog_update := (\<lambda>_ _ _. False)\<rparr>"

definition branch_existing_env :: env where
  "branch_existing_env =
     answering (sample_env (JArr []))
       (branch_command (sample_env (JArr [])) (branch_name ''1.10.0'')) ([], [], 0)"

definition lookup_failing_env :: env where
  "lookup_failing_env =
     answering (sample_env (JArr []))
       (branch_command (sample_env (JArr [])) (branch_name ''1.10.0''))
       ([], ''gh: Server Error (HTTP 500)'', 1)"

definition tags_warning_env :: env where
  "tags_warning_env =
     answering (sample_env (JArr [])) tags_command (''tags.json'', ''warning: rate limit'', 0)"

definition push_failing_env :: env where
  "push_failing_env =
     answering (sample_env (JArr [])) (push_command (branch_name ''1.10.0''))
       ([], ''error: failed to push some refs'', 1)"

definition pr_create_failing_env :: env where
  "pr_create_failing_env =
     answering (sample_env (JArr []))
       (pr_create_command (branch_name ''1.10.0'') (pr_title ''1.10.0'') (pr_body ''1.10.0''))
       ([], ''pull request create failed'', 1)"

definition issue_create_failing_env :: env where
  "issue_create_failing_env =
     answering (unreachable_env (JArr []))
       (issue_create_command (unreachable_env (JArr [])) (issue_title ''1.10.0'')
          (issue_body (cdn_url ''1.10.0'')))
       ([], ''GraphQL: Resource not accessible'', 1)"

definition pr_list_failing_env :: env where
  \<comment> \<open>the pull-request listing fails: no output, an error on standard error, exit code 1\<close>
  "pr_list_failing_env =
     answering (sample_env (JArr []))
       (pr_list_command (sample_env (JArr [])) (branch_name ''1.10.0''))
       ([], ''HTTP 500: Internal Server Error'', 1)"

definition commit_failing_env :: env where
  \<comment> \<open>\<open>git commit\<close> fails with exit code 128\<close>
  "commit_failing_env =
     answering (sample_env (JArr [])) (commit_command (pr_title ''1.10.0''))
       ([], ''fatal: unable to write new index file'', 128)"

section \<open>Sequencing and the paths of the script\<close>

lemma bind_io_Return: "bind_io (t, Return x) f = (t @ fst (f x), snd (f x))"
  by (simp add: bind_io_def case_prod_beta)

lemma bind_io_SysExit: "bind_io (t, SysExit n) f = (t, SysExit n)"
  by (simp add: bind_io_def)

lemma bind_io_Uncaught: "bind_io (t, Uncaught x) f = (t, Uncaught x)"
  by (simp add: bind_io_def)

lemmas io_defs = bind_io_Return bind_io_SysExit bind_io_Uncaught return_io_def sys_exit_def
  raise_def print_def print_err_def run_def Let_def case_prod_beta

lemma sample_latest: "get_latest_version (sample_env issues) = ([Exec tags_command], Return ''1.10.0'')"
  by code_simp

lemma latest_trace:
  assumes "get_latest_version e = (t0, Return v)"
  shows "t0 = [Exec tags_command]"
  using assms
  by (auto simp: get_latest_version_def io_defs split: prod.splits option.splits sum.splits if_splits list.splits)

lemma main_up_to_date:
  assumes "get_latest_version e = (t0, Return v)" and "cdn_url v = DEFAULT_PLOTLY e"
  shows "main e = (t0 @ [Print ''Already up to date''], SysExit 0)"
  using assms by (simp add: main_def io_defs)

lemma main_reachable:
  assumes "get_latest_version e = (t0, Return v)" and "cdn_url v \<noteq> DEFAULT_PLOTLY e"
    and "head_status e (cdn_url v) = Some 200"
  shows "main e =
     (t0 @ [Head (cdn_url v), ReadText (FILE_PATH e),
            WriteText (FILE_PATH e) (replace_first (DEFAULT_PLOTLY e) (cdn_url v) (file_text e))]
         @ fst (create_pr e v),
      snd (create_pr e v))"
  using assms by (simp add: main_def io_defs verify_url_def split: result.splits)

lemma main_unreachable:
  assumes "get_latest_version e = (t0, Return v)" and "cdn_url v \<noteq> DEFAULT_PLOTLY e"
    and "head_status e (cdn_url v) = Some st" and "st \<noteq> 200"
  shows "main e =
     (t0 @ [Head (cdn_url v)]
         @ fst (bind_io (verify_issue e (issue_title v))
                  (\<lambda>_. create_issue e (issue_title v) (issue_body (cdn_url v)))),
      snd (bind_io (verify_issue e (issue_title v))
             (\<lambda>_. create_issue e (issue_title v) (issue_body (cdn_url v)))))"
  using assms by (simp add: main_def io_defs verify_url_def split: result.splits)

lemma create_pr_branch_exists:
  assumes "proc e (branch_command e (branch_name v)) = (out, err, 0)"
  shows "create_pr e v =
     ([Exec (branch_command e (branch_name v)),
       PrintErr (''The branch '' @ branch_name v @ '' already exists'')], SysExit 1)"
  using assms by (simp add: create_pr_def io_defs)

lemma create_pr_lookup_failed:
  assumes "proc e (branch_command e (branch_name v)) = (out, err, rc)" and "rc \<noteq> 0"
    and "\<not> contains ''HTTP 404'' err"
  shows "create_pr e v = ([Exec (branch_command e (branch_name v)), PrintErr err], SysExit 1)"
  using assms by (simp add: create_pr_def io_defs)

lemma create_pr_pr_exists:
  assumes "proc e (branch_command e (branch_name v)) = (out, err, rc)" and "rc \<noteq> 0"
    and "contains ''HTTP 404'' err"
    and "fst (proc e (pr_list_command e (branch_name v))) \<noteq> []"
  shows "create_pr e v =
     ([Exec (branch_command e (branch_name v)), Exec (pr_list_command e (branch_name v)),
       PrintErr (''Pull request for '' @ [CHR 0x27] @ branch_name v @ [CHR 0x27] @ '' already exists'')],
      SysExit 1)"
  using assms by (simp add: create_pr_def io_defs)

lemma create_pr_changelog_failed:
  assumes "proc e (branch_command e (branch_name v)) = (out, err, rc)" and "rc \<noteq> 0"
    and "contains ''HTTP 404'' err"
    and "fst (proc e (pr_list_command e (branch_name v))) = []"
    and "\<not> changelog_update e v (pr_title v) (GITHUB_WORKSPACE e)"
  shows "create_pr e v =
     ([Exec (branch_command e (branch_name v)), Exec (pr_list_command e (branch_name v)),
       ChangelogUpdate v (pr_title v) (GITHUB_WORKSPACE e),
       PrintErr ''Failed to update changelog''],
      SysExit 1)"
  using assms by (simp add: create_pr_def io_defs)

lemma create_pr_push_failed:
  assumes "proc e (branch_command e (branch_name v)) = (out, err, rc)" and "rc \<noteq> 0"
    and "contains ''HTTP 404'' err"
    and "fst (proc e (pr_list_command e (branch_name v))) = []"
    and "changelog_update e v (pr_title v) (GITHUB_WORKSPACE e)"
    and "proc e (push_command (branch_name v)) = (push_out, push_err, push_eval)"
    and "push_eval \<noteq> 0"
  shows "create_pr e v = (pr_steps e v @ [PrintErr push_err], SysExit 1)"
  using assms by (simp add: create_pr_def io_defs pr_steps_def)

lemma create_pr_create_failed:
  assumes "proc e (branch_command e (branch_name v)) = (out, err, rc)" and "rc \<noteq> 0"
    and "contains ''HTTP 404'' err"
    and "fst (proc e (pr_list_command e (branch_name v))) = []"
    and "changelog_update e v (pr_title v) (GITHUB_WORKSPACE e)"
    and "snd (snd (proc e (push_command (branch_name v)))) = 0"
    and "proc e (pr_create_command (branch_name v) (pr_title v) (pr_body v)) = (new_pr, pr_err, pr_eval)"
    and "pr_eval \<noteq> 0"
  shows "create_pr e v =
     (pr_steps e v @ [Exec (pr_create_command (branch_name v) (pr_title v) (pr_body v)),
                      PrintErr pr_err], SysExit 1)"
  using assms by (simp add: create_pr_def io_defs pr_steps_def)

lemma create_pr_done:
  assumes "proc e (branch_command e (branch_name v)) = (out, err, rc)" and "rc \<noteq> 0"
    and "contains ''HTTP 404'' err"
    and "fst (proc e (pr_list_command e (branch_name v))) = []"
    and "changelog_update e v (pr_title v) (GITHUB_WORKSPACE e)"
    and "snd (snd (proc e (push_command (branch_name v)))) = 0"
    and "proc e (pr_create_command (branch_name v) (pr_title v) (pr_body v)) = (new_pr, pr_err, 0)"
  shows "create_pr e v =
     (pr_steps e v @ [Exec (pr_create_command (branch_name v) (pr_title v) (pr_body v)),
                      Print (''Pull request: '' @ strip new_pr)], Return ())"
  using assms by (simp add: create_pr_def io_defs pr_steps_def)


lemma commands_append: "commands (a @ b) = commands a @ commands b"
  by (induction a rule: commands.induct) simp_all

lemma file_writes_append: "file_writes (a @ b) = file_writes a @ file_writes b"
  by (induction a rule: file_writes.induct) simp_all






lemma create_issue_commands:
  "commands (fst (create_issue e title body)) = [issue_create_command e title body]"
  by (simp add: create_issue_def io_defs)

lemma create_issue_failed:
  assumes "proc e (issue_create_command e title body) = (new_issue, issue_err, rc)"
    and "issue_err \<noteq> []"
  shows "create_issue e title body =
     ([Exec (issue_create_command e title body), Print issue_err], SysExit 1)"
  using assms by (simp add: create_issue_def io_defs)

lemma contains_append: "contains sub (p @ sub @ q)"
proof (induction p)
  case Nil
  show ?case
  proof (cases "sub @ q")
    case Nil
    then show ?thesis by simp
  next
    case (Cons a list)
    have "prefix sub (sub @ q)" by simp
    with Cons show ?thesis by simp
  qed
next
  case (Cons c p)
  then show ?case by simp
qed

lemma contains_iff: "contains sub s \<longleftrightarrow> (\<exists>p q. s = p @ sub @ q)"
proof
  show "contains sub s \<Longrightarrow> \<exists>p q. s = p @ sub @ q"
  proof (induction s)
    case Nil
    then show ?case by simp
  next
    case (Cons c cs)
    from Cons.prems have "prefix sub (c # cs) \<or> contains sub cs" by simp
    then show ?case
    proof
      assume "prefix sub (c # cs)"
      then obtain q where "c # cs = sub @ q" by (auto simp: prefix_def)
      then have "c # cs = [] @ sub @ q" by simp
      then show ?thesis by blast
    next
      assume "contains sub cs"
      with Cons.IH obtain p q where "cs = p @ sub @ q" by blast
      then have "c # cs = (c # p) @ sub @ q" by simp
      then show ?thesis by blast
    qed
  qed
next
  assume "\<exists>p q. s = p @ sub @ q"
  then show "contains sub s" by (auto simp: contains_append)
qed

lemma replace_first_absent: "\<not> contains old s \<Longrightarrow> replace_first old new s = s"
  by (induction s) auto

lemma replace_first_changes:
  "contains old s \<Longrightarrow> old \<noteq> new \<Longrightarrow> replace_first old new s \<noteq> s"
proof (induction s)
  case Nil
  then show ?case by auto
next
  case (Cons c cs)
  show ?case
  proof (cases "prefix old (c # cs)")
    case True
    then obtain q where q: "c # cs = old @ q" by (auto simp: prefix_def)
    have "replace_first old new (c # cs) = new @ drop (length old) (c # cs)"
      using True by simp
    also have "\<dots> = new @ q" using q by simp
    finally have r: "replace_first old new (c # cs) = new @ q" .
    show ?thesis
    proof
      assume "replace_first old new (c # cs) = c # cs"
      with r q have "new @ q = old @ q" by simp
      with Cons.prems(2) show False by simp
    qed
  next
    case False
    with Cons show ?thesis by auto
  qed
qed

lemma replace_first_occurrence:
  assumes "\<not> contains old (pre @ butlast old)"
  shows "replace_first old new (pre @ old @ post) = pre @ new @ post"
  using assms
proof (induction pre)
  case Nil
  have "old \<noteq> []" using Nil by (cases "butlast old") auto
  then obtain c cs where "old @ post = c # cs" by (cases old) auto
  moreover have "prefix old (old @ post)" by simp
  ultimately show ?case
    by (metis append_Nil append_eq_conv_conj replace_first.simps(2))
next
  case (Cons c pre)
  have old: "old \<noteq> []" using Cons.prems by (cases "butlast old"; cases old) auto
  from Cons.prems have np: "\<not> prefix old (c # pre @ butlast old)"
    and nc: "\<not> contains old (pre @ butlast old)" by auto
  have "\<not> prefix old (c # pre @ old @ post)"
  proof
    assume p: "prefix old (c # pre @ old @ post)"
    have "c # pre @ old @ post = (c # pre @ butlast old) @ (last old # post)"
      using old by simp
    with p have "prefix old ((c # pre @ butlast old) @ (last old # post))" by simp
    moreover have "length old \<le> length (c # pre @ butlast old)" using old by simp
    ultimately have "prefix old (c # pre @ butlast old)"
      by (metis prefix_length_prefix prefixI)
    with np show False ..
  qed
  with Cons.IH[OF nc] show ?case by simp
qed


lemma latest_cong:
  "proc e' tags_command = proc e tags_command \<Longrightarrow> json_loads e' = json_loads e \<Longrightarrow>
   get_latest_version e' = get_latest_version e"
  by (simp add: get_latest_version_def run_def)

lemmas obs_defs = trace_def outcome_def exit_code_def git_commands_def pr_creations_def
  issue_creations_def commands_append file_writes_append

lemmas cmd_defs = tags_command_def branch_command_def pr_list_command_def checkout_command_def
  add_command_def commit_command_def push_command_def pr_create_command_def
  issue_list_command_def issue_create_command_def

lemma create_pr_no_writes: "file_writes (fst (create_pr e v)) = []"
  by (simp add: create_pr_def io_defs)

lemma create_pr_published:
  assumes "proc e (branch_command e (branch_name v)) = (out, err, rc)" and "rc \<noteq> 0"
    and "contains ''HTTP 404'' err"
    and "fst (proc e (pr_list_command e (branch_name v))) = []"
    and "changelog_update e v (pr_title v) (GITHUB_WORKSPACE e)"
    and "snd (snd (proc e (push_command (branch_name v)))) = 0"
  shows "commands (fst (create_pr e v)) =
     [branch_command e (branch_name v), pr_list_command e (branch_name v),
      checkout_command (branch_name v), add_command, commit_command (pr_title v),
      push_command (branch_name v),
      pr_create_command (branch_name v) (pr_title v) (pr_body v)]"
  using assms by (simp add: create_pr_def io_defs)

lemma git_filter:
  "filter (\<lambda>c. take 1 c = [''git''])
     [tags_command, branch_command e b, pr_list_command e b, checkout_command b, add_command,
      commit_command t, push_command b, pr_create_command b t d]
   = [checkout_command b, add_command, commit_command t, push_command b]"
  by (simp add: cmd_defs)

lemma pr_create_filter:
  "filter (\<lambda>c. take 3 c = [''gh'', ''pr'', ''create''])
     [tags_command, branch_command e b, pr_list_command e b, checkout_command b, add_command,
      commit_command t, push_command b, pr_create_command b t d]
   = [pr_create_command b t d]"
  by (simp add: cmd_defs)

lemma latest_answering:
  "c \<noteq> tags_command \<Longrightarrow> get_latest_version (answering e c r) = get_latest_version e"
  by (rule latest_cong) (simp_all add: answering_def)

lemma create_pr_abort:
  assumes "snd (snd (proc e (branch_command e (branch_name v)))) = 0
           \<or> fst (proc e (pr_list_command e (branch_name v))) \<noteq> []"
  shows "\<exists>msg. create_pr e v = ([Exec (branch_command e (branch_name v)), PrintErr msg], SysExit 1)
               \<or> create_pr e v =
                  ([Exec (branch_command e (branch_name v)),
                    Exec (pr_list_command e (branch_name v)), PrintErr msg], SysExit 1)"
proof -
  obtain out err rc where b: "proc e (branch_command e (branch_name v)) = (out, err, rc)"
    by (cases "proc e (branch_command e (branch_name v))") auto
  show ?thesis
  proof (cases "rc = 0")
    case True
    with b create_pr_branch_exists[of e v out err] show ?thesis by blast
  next
    case rc: False
    show ?thesis
    proof (cases "contains ''HTTP 404'' err")
      case False
      with b rc create_pr_lookup_failed[of e v out err rc] show ?thesis by blast
    next
      case True
      from assms b rc have "fst (proc e (pr_list_command e (branch_name v))) \<noteq> []" by simp
      with b rc True create_pr_pr_exists[of e v out err rc] show ?thesis by blast
    qed
  qed
qed


lemma create_pr_starts: "\<exists>rest. fst (create_pr e v) = Exec (branch_command e (branch_name v)) # rest"
  by (simp add: create_pr_def io_defs)

lemma create_pr_proceeds:
  assumes "proc e (branch_command e (branch_name v)) = (out, err, rc)" and "rc \<noteq> 0"
    and "contains ''HTTP 404'' err"
  shows "\<exists>rest. fst (create_pr e v) =
           Exec (branch_command e (branch_name v)) # Exec (pr_list_command e (branch_name v)) # rest"
  using assms by (simp add: create_pr_def io_defs)

lemma sample_reach:
  assumes "e = answering (sample_env (JArr [])) (branch_command (sample_env (JArr [])) (branch_name ''1.10.0'')) r"
  shows "get_latest_version e = ([Exec tags_command], Return ''1.10.0'')"
    and "cdn_url ''1.10.0'' \<noteq> DEFAULT_PLOTLY e"
    and "head_status e (cdn_url ''1.10.0'') = Some 200"
    and "proc e (branch_command e (branch_name ''1.10.0'')) = r"
  unfolding assms
     apply (simp add: latest_answering sample_latest cmd_defs)
    apply (simp add: answering_def sample_env_def cdn_url_def)
   apply (simp add: answering_def sample_env_def)
  apply (simp add: answering_def sample_env_def branch_command_def)
  done

lemma proc_parts: "proc e c = (stdout_of e c, stderr_of e c, returncode_of e c)"
  by (simp add: stdout_of_def stderr_of_def returncode_of_def)

lemma issue_loop_commands: "commands (fst (issue_loop e title items)) = []"
  by (induction items) (auto simp: io_defs split: sum.splits)

lemma bind_io_commands:
  "commands (fst (bind_io m f)) =
     commands (fst m) @ (case snd m of Return x \<Rightarrow> commands (fst (f x)) | _ \<Rightarrow> [])"
  by (cases m; cases "snd m") (auto simp: io_defs commands_append)

lemma verify_issue_commands: "commands (fst (verify_issue e title)) = [issue_list_command e title]"
  by (auto simp: verify_issue_def bind_io_commands issue_loop_commands io_defs
      split: option.splits sum.splits result.splits)

lemma create_pr_push_invoked:
  assumes "push_command (branch_name v) \<in> set (commands (fst (create_pr e v)))"
    and "returncode_of e (push_command (branch_name v)) \<noteq> 0"
  shows "create_pr e v =
           (pr_steps e v @ [PrintErr (stderr_of e (push_command (branch_name v)))], SysExit 1)"
  using assms
  by (auto simp: create_pr_def io_defs pr_steps_def cmd_defs stderr_of_def returncode_of_def
      split: if_splits)

lemma create_pr_create_invoked:
  assumes "pr_create_command (branch_name v) (pr_title v) (pr_body v)
             \<in> set (commands (fst (create_pr e v)))"
    and "returncode_of e (pr_create_command (branch_name v) (pr_title v) (pr_body v)) \<noteq> 0"
  shows "create_pr e v =
           (pr_steps e v @ [Exec (pr_create_command (branch_name v) (pr_title v) (pr_body v)),
              PrintErr (stderr_of e (pr_create_command (branch_name v) (pr_title v) (pr_body v)))],
            SysExit 1)"
  using assms
  by (auto simp: create_pr_def io_defs pr_steps_def cmd_defs stderr_of_def returncode_of_def
      split: if_splits)

lemma main_commands_up_to_date:
  assumes "get_latest_version e = (t0, Return v)" and "cdn_url v = DEFAULT_PLOTLY e"
  shows "commands (trace (main e)) = [tags_command]"
  using main_up_to_date[OF assms] latest_trace[OF assms(1)] by (simp add: trace_def)

lemma main_commands_head_raises:
  assumes "get_latest_version e = (t0, Return v)" and "cdn_url v \<noteq> DEFAULT_PLOTLY e"
    and "head_status e (cdn_url v) = None"
  shows "commands (trace (main e)) = [tags_command]"
  using assms latest_trace[OF assms(1)]
  by (simp add: main_def io_defs verify_url_def trace_def)

lemma main_commands_unreachable:
  assumes "get_latest_version e = (t0, Return v)" and "cdn_url v \<noteq> DEFAULT_PLOTLY e"
    and "head_status e (cdn_url v) = Some st" and "st \<noteq> 200"
  shows "commands (trace (main e)) =
           tags_command # issue_list_command e (issue_title v)
           # (case snd (verify_issue e (issue_title v)) of
                Return _ \<Rightarrow> [issue_create_command e (issue_title v) (issue_body (cdn_url v))]
              | _ \<Rightarrow> [])"
  using main_unreachable[OF assms] latest_trace[OF assms(1)]
  by (simp add: trace_def commands_append bind_io_commands verify_issue_commands
      create_issue_commands split: result.splits)

lemma main_commands_reachable:
  assumes "get_latest_version e = (t0, Return v)" and "cdn_url v \<noteq> DEFAULT_PLOTLY e"
    and "head_status e (cdn_url v) = Some 200"
  shows "commands (trace (main e)) = tags_command # commands (fst (create_pr e v))"
  using main_reachable[OF assms] latest_trace[OF assms(1)]
  by (simp add: trace_def commands_append)

lemma create_pr_commands:
  "set (commands (fst (create_pr e v))) \<subseteq>
     {branch_command e (branch_name v), pr_list_command e (branch_name v),
      checkout_command (branch_name v), add_command, commit_command (pr_title v),
      push_command (branch_name v), pr_create_command (branch_name v) (pr_title v) (pr_body v)}"
  by (simp add: create_pr_def io_defs)

text \<open>Which path a run took, read off a command it started.\<close>

lemma invoked_in_create_pr:
  assumes "get_latest_version e = (t0, Return v)"
    and "c \<in> set (commands (trace (main e)))"
    and "take 1 c = [''git''] \<or> take 2 c = [''gh'', ''pr'']
         \<or> c = branch_command e (branch_name v)"
  shows "c \<in> set (commands (fst (create_pr e v)))
         \<and> main e =
             ([Exec tags_command, Head (cdn_url v), ReadText (FILE_PATH e),
               WriteText (FILE_PATH e) (replace_first (DEFAULT_PLOTLY e) (cdn_url v) (file_text e))]
              @ fst (create_pr e v), snd (create_pr e v))"
proof (cases "cdn_url v = DEFAULT_PLOTLY e")
  case True
  from main_commands_up_to_date[OF assms(1) True] assms(2,3) show ?thesis
    by (auto simp: cmd_defs)
next
  case ne: False
  show ?thesis
  proof (cases "head_status e (cdn_url v)")
    case None
    from main_commands_head_raises[OF assms(1) ne None] assms(2,3) show ?thesis
      by (auto simp: cmd_defs)
  next
    case (Some st)
    show ?thesis
    proof (cases "st = 200")
      case True
      with Some have h: "head_status e (cdn_url v) = Some 200" by simp
      from main_commands_reachable[OF assms(1) ne h] assms(2,3)
      have "c \<in> set (commands (fst (create_pr e v)))" by (auto simp: cmd_defs)
      moreover from main_reachable[OF assms(1) ne h] latest_trace[OF assms(1)]
      have "main e =
             ([Exec tags_command, Head (cdn_url v), ReadText (FILE_PATH e),
               WriteText (FILE_PATH e) (replace_first (DEFAULT_PLOTLY e) (cdn_url v) (file_text e))]
              @ fst (create_pr e v), snd (create_pr e v))" by simp
      ultimately show ?thesis by blast
    next
      case False
      from main_commands_unreachable[OF assms(1) ne Some False] assms(2,3) show ?thesis
        by (auto simp: cmd_defs split: result.splits)
    qed
  qed
qed

lemma get_latest_version_stderr:
  assumes "json_loads e (stdout_of e tags_command) = Some j" and "jq_tags j = Some tags"
    and "parse_all tags = Inr vs" and "stderr_of e tags_command \<noteq> []"
  shows "get_latest_version e = ([Exec tags_command, Print (stderr_of e tags_command)], SysExit 1)"
  using assms by (simp add: get_latest_version_def io_defs stdout_of_def stderr_of_def)

lemma invoked_issue_create:
  assumes "get_latest_version e = (t0, Return v)"
    and "issue_create_command e (issue_title v) (issue_body (cdn_url v))
           \<in> set (commands (trace (main e)))"
  shows "main e =
           ([Exec tags_command, Head (cdn_url v)] @ fst (verify_issue e (issue_title v))
            @ fst (create_issue e (issue_title v) (issue_body (cdn_url v))),
            snd (create_issue e (issue_title v) (issue_body (cdn_url v))))"
proof (cases "cdn_url v = DEFAULT_PLOTLY e")
  case True
  from main_commands_up_to_date[OF assms(1) True] assms(2) show ?thesis
    by (auto simp: cmd_defs)
next
  case ne: False
  show ?thesis
  proof (cases "head_status e (cdn_url v)")
    case None
    from main_commands_head_raises[OF assms(1) ne None] assms(2) show ?thesis
      by (auto simp: cmd_defs)
  next
    case (Some st)
    show ?thesis
    proof (cases "st = 200")
      case True
      with Some have h: "head_status e (cdn_url v) = Some 200" by simp
      from main_commands_reachable[OF assms(1) ne h] assms(2) create_pr_commands[of e v]
      show ?thesis by (auto simp: cmd_defs)
    next
      case False
      from main_commands_unreachable[OF assms(1) ne Some False] assms(2)
      have r: "snd (verify_issue e (issue_title v)) = Return ()"
        by (auto simp: cmd_defs split: result.splits)
      obtain t where "verify_issue e (issue_title v) = (t, Return ())"
        using r by (cases "verify_issue e (issue_title v)") auto
      with main_unreachable[OF assms(1) ne Some False] latest_trace[OF assms(1)]
      show ?thesis by (simp add: io_defs)
    qed
  qed
qed

lemma answering_other: "c' \<noteq> c \<Longrightarrow> proc (answering e c r) c' = proc e c'"
  by (simp add: answering_def)

lemma answering_same: "proc (answering e c r) c = r"
  by (simp add: answering_def)

lemma push_failing_run:
  "get_latest_version push_failing_env = ([Exec tags_command], Return ''1.10.0'')"
  "push_command (branch_name ''1.10.0'') \<in> set (commands (trace (main push_failing_env)))"
  "returncode_of push_failing_env (push_command (branch_name ''1.10.0'')) = 1"
  "stderr_of push_failing_env (push_command (branch_name ''1.10.0''))
     = ''error: failed to push some refs''"
  by code_simp+

lemma pr_create_failing_run:
  "get_latest_version pr_create_failing_env = ([Exec tags_command], Return ''1.10.0'')"
  "pr_create_command (branch_name ''1.10.0'') (pr_title ''1.10.0'') (pr_body ''1.10.0'')
     \<in> set (commands (trace (main pr_create_failing_env)))"
  "returncode_of pr_create_failing_env
     (pr_create_command (branch_name ''1.10.0'') (pr_title ''1.10.0'') (pr_body ''1.10.0'')) = 1"
  "stderr_of pr_create_failing_env
     (pr_create_command (branch_name ''1.10.0'') (pr_title ''1.10.0'') (pr_body ''1.10.0''))
     = ''pull request create failed''"
  by code_simp+

lemma issue_create_failing_run:
  "get_latest_version issue_create_failing_env = ([Exec tags_command], Return ''1.10.0'')"
  "issue_create_command issue_create_failing_env (issue_title ''1.10.0'')
       (issue_body (cdn_url ''1.10.0''))
     \<in> set (commands (trace (main issue_create_failing_env)))"
  "stderr_of issue_create_failing_env
     (issue_create_command issue_create_failing_env (issue_title ''1.10.0'')
        (issue_body (cdn_url ''1.10.0'')))
     = ''GraphQL: Resource not accessible''"
  by code_simp+

lemma lookup_failing_run:
  "get_latest_version lookup_failing_env = ([Exec tags_command], Return ''1.10.0'')"
  "branch_command lookup_failing_env (branch_name ''1.10.0'')
     \<in> set (commands (trace (main lookup_failing_env)))"
  "returncode_of lookup_failing_env (branch_command lookup_failing_env (branch_name ''1.10.0'')) = 1"
  "stderr_of lookup_failing_env (branch_command lookup_failing_env (branch_name ''1.10.0''))
     = ''gh: Server Error (HTTP 500)''"
  "\<not> contains ''HTTP 404'' ''gh: Server Error (HTTP 500)''"
  by code_simp+

lemma tags_warning_run:
  "json_loads tags_warning_env (stdout_of tags_warning_env tags_command)
     = Some (JArr [tag_entry ''v1.2.0'', tag_entry ''v1.10.0'', tag_entry ''v1.9.9''])"
  "jq_tags (JArr [tag_entry ''v1.2.0'', tag_entry ''v1.10.0'', tag_entry ''v1.9.9''])
     = Some [JStr ''1.2.0'', JStr ''1.10.0'', JStr ''1.9.9'']"
  "parse_all [JStr ''1.2.0'', JStr ''1.10.0'', JStr ''1.9.9'']
     = Inr [\<lparr>major = 1, minor = 2, patch = 0, prerelease = None, build = None\<rparr>,
            \<lparr>major = 1, minor = 10, patch = 0, prerelease = None, build = None\<rparr>,
            \<lparr>major = 1, minor = 9, patch = 9, prerelease = None, build = None\<rparr>]"
  "stderr_of tags_warning_env tags_command = ''warning: rate limit''"
  by code_simp+

text \<open>
  The failures the script inspects are fatal: the error text is printed last and the
  process exits with code 1.  These are: populated standard error of the tag listing
  (once its output has decoded and parsed); a nonzero exit code of the branch lookup
  whose standard error lacks \<open>HTTP 404\<close>; a nonzero exit code of \<open>git push\<close>; a
  nonzero exit code of \<open>gh pr create\<close>; populated standard error of
  \<open>gh issue create\<close>.  Each is stated for a run that has started the command.
\<close>

lemma inspected_failures_fatal:
  "(json_loads e (stdout_of e tags_command) = Some j \<and> jq_tags j = Some tags
      \<and> parse_all tags = Inr vs \<and> stderr_of e tags_command \<noteq> []
    \<longrightarrow> trace (main e) = [Exec tags_command, Print (stderr_of e tags_command)]
        \<and> exit_code (main e) = 1)
   \<and> (get_latest_version e = (t0, Return v) \<longrightarrow>
        (branch_command e (branch_name v) \<in> set (commands (trace (main e)))
           \<and> returncode_of e (branch_command e (branch_name v)) \<noteq> 0
           \<and> \<not> contains ''HTTP 404'' (stderr_of e (branch_command e (branch_name v)))
         \<longrightarrow> last (trace (main e)) = PrintErr (stderr_of e (branch_command e (branch_name v)))
             \<and> exit_code (main e) = 1)
      \<and> (push_command (branch_name v) \<in> set (commands (trace (main e)))
           \<and> returncode_of e (push_command (branch_name v)) \<noteq> 0
         \<longrightarrow> last (trace (main e)) = PrintErr (stderr_of e (push_command (branch_name v)))
             \<and> exit_code (main e) = 1)
      \<and> (pr_create_command (branch_name v) (pr_title v) (pr_body v)
             \<in> set (commands (trace (main e)))
           \<and> returncode_of e (pr_create_command (branch_name v) (pr_title v) (pr_body v)) \<noteq> 0
         \<longrightarrow> last (trace (main e))
               = PrintErr (stderr_of e (pr_create_command (branch_name v) (pr_title v) (pr_body v)))
             \<and> exit_code (main e) = 1)
      \<and> (issue_create_command e (issue_title v) (issue_body (cdn_url v))
             \<in> set (commands (trace (main e)))
           \<and> stderr_of e (issue_create_command e (issue_title v) (issue_body (cdn_url v))) \<noteq> []
         \<longrightarrow> last (trace (main e))
               = Print (stderr_of e (issue_create_command e (issue_title v) (issue_body (cdn_url v))))
             \<and> exit_code (main e) = 1))"
proof -
  have tags: "trace (main e) = [Exec tags_command, Print (stderr_of e tags_command)]
        \<and> exit_code (main e) = 1"
    if "json_loads e (stdout_of e tags_command) = Some j" "jq_tags j = Some tags"
      "parse_all tags = Inr vs" "stderr_of e tags_command \<noteq> []"
    using get_latest_version_stderr[OF that]
    by (simp add: main_def io_defs trace_def exit_code_def)
  have branch: "last (trace (main e)) = PrintErr (stderr_of e (branch_command e (branch_name v)))
             \<and> exit_code (main e) = 1"
    if l: "get_latest_version e = (t0, Return v)"
      and i: "branch_command e (branch_name v) \<in> set (commands (trace (main e)))"
      and rc: "returncode_of e (branch_command e (branch_name v)) \<noteq> 0"
      and nf: "\<not> contains ''HTTP 404'' (stderr_of e (branch_command e (branch_name v)))"
  proof -
    from invoked_in_create_pr[OF l i] have m: "main e =
             ([Exec tags_command, Head (cdn_url v), ReadText (FILE_PATH e),
               WriteText (FILE_PATH e) (replace_first (DEFAULT_PLOTLY e) (cdn_url v) (file_text e))]
              @ fst (create_pr e v), snd (create_pr e v))" by simp
    from create_pr_lookup_failed[OF proc_parts rc nf] show ?thesis
      by (simp add: m trace_def exit_code_def)
  qed
  have push: "last (trace (main e)) = PrintErr (stderr_of e (push_command (branch_name v)))
             \<and> exit_code (main e) = 1"
    if l: "get_latest_version e = (t0, Return v)"
      and i: "push_command (branch_name v) \<in> set (commands (trace (main e)))"
      and rc: "returncode_of e (push_command (branch_name v)) \<noteq> 0"
  proof -
    have "take 1 (push_command (branch_name v)) = [''git'']" by (simp add: push_command_def)
    with invoked_in_create_pr[OF l i] have
      m: "main e =
             ([Exec tags_command, Head (cdn_url v), ReadText (FILE_PATH e),
               WriteText (FILE_PATH e) (replace_first (DEFAULT_PLOTLY e) (cdn_url v) (file_text e))]
              @ fst (create_pr e v), snd (create_pr e v))"
      and c: "push_command (branch_name v) \<in> set (commands (fst (create_pr e v)))" by simp_all
    from create_pr_push_invoked[OF c rc] show ?thesis
      by (simp add: m trace_def exit_code_def)
  qed
  have create: "last (trace (main e))
               = PrintErr (stderr_of e (pr_create_command (branch_name v) (pr_title v) (pr_body v)))
             \<and> exit_code (main e) = 1"
    if l: "get_latest_version e = (t0, Return v)"
      and i: "pr_create_command (branch_name v) (pr_title v) (pr_body v)
                \<in> set (commands (trace (main e)))"
      and rc: "returncode_of e (pr_create_command (branch_name v) (pr_title v) (pr_body v)) \<noteq> 0"
  proof -
    have "take 2 (pr_create_command (branch_name v) (pr_title v) (pr_body v)) = [''gh'', ''pr'']"
      by (simp add: pr_create_command_def)
    with invoked_in_create_pr[OF l i] have
      m: "main e =
             ([Exec tags_command, Head (cdn_url v), ReadText (FILE_PATH e),
               WriteText (FILE_PATH e) (replace_first (DEFAULT_PLOTLY e) (cdn_url v) (file_text e))]
              @ fst (create_pr e v), snd (create_pr e v))"
      and c: "pr_create_command (branch_name v) (pr_title v) (pr_body v)
                \<in> set (commands (fst (create_pr e v)))" by simp_all
    from create_pr_create_invoked[OF c rc] show ?thesis
      by (simp add: m trace_def exit_code_def)
  qed
  have issue: "last (trace (main e))
               = Print (stderr_of e (issue_create_command e (issue_title v) (issue_body (cdn_url v))))
             \<and> exit_code (main e) = 1"
    if l: "get_latest_version e = (t0, Return v)"
      and i: "issue_create_command e (issue_title v) (issue_body (cdn_url v))
                \<in> set (commands (trace (main e)))"
      and er: "stderr_of e (issue_create_command e (issue_title v) (issue_body (cdn_url v))) \<noteq> []"
  proof -
    note m = invoked_issue_create[OF l i]
    from create_issue_failed[OF proc_parts er] show ?thesis
      by (simp add: m trace_def exit_code_def)
  qed
  from tags branch push create issue show ?thesis by blast
qed

text \<open>One environment for each inspected failure.\<close>

lemma inspected_failures_examples:
  "(stderr_of tags_warning_env tags_command = ''warning: rate limit''
    \<and> trace (main tags_warning_env) = [Exec tags_command, Print ''warning: rate limit'']
    \<and> exit_code (main tags_warning_env) = 1)
   \<and> (branch_command lookup_failing_env (branch_name ''1.10.0'')
         \<in> set (commands (trace (main lookup_failing_env)))
       \<and> returncode_of lookup_failing_env
            (branch_command lookup_failing_env (branch_name ''1.10.0'')) = 1
       \<and> last (trace (main lookup_failing_env)) = PrintErr ''gh: Server Error (HTTP 500)''
       \<and> exit_code (main lookup_failing_env) = 1)
   \<and> (push_command (branch_name ''1.10.0'') \<in> set (commands (trace (main push_failing_env)))
       \<and> returncode_of push_failing_env (push_command (branch_name ''1.10.0'')) = 1
       \<and> last (trace (main push_failing_env)) = PrintErr ''error: failed to push some refs''
       \<and> exit_code (main push_failing_env) = 1)
   \<and> (pr_create_command (branch_name ''1.10.0'') (pr_title ''1.10.0'') (pr_body ''1.10.0'')
         \<in> set (commands (trace (main pr_create_failing_env)))
       \<and> returncode_of pr_create_failing_env
            (pr_create_command (branch_name ''1.10.0'') (pr_title ''1.10.0'') (pr_body ''1.10.0'')) = 1
       \<and> last (trace (main pr_create_failing_env)) = PrintErr ''pull request create failed''
       \<and> exit_code (main pr_create_failing_env) = 1)
   \<and> (issue_create_command issue_create_failing_env (issue_title ''1.10.0'')
           (issue_body (cdn_url ''1.10.0''))
         \<in> set (commands (trace (main issue_create_failing_env)))
       \<and> last (trace (main issue_create_failing_env)) = Print ''GraphQL: Resource not accessible''
       \<and> exit_code (main issue_create_failing_env) = 1)"
proof -
  have t: "trace (main tags_warning_env) = [Exec tags_command, Print ''warning: rate limit'']
    \<and> exit_code (main tags_warning_env) = 1"
    using inspected_failures_fatal[of tags_warning_env
        "JArr [tag_entry ''v1.2.0'', tag_entry ''v1.10.0'', tag_entry ''v1.9.9'']"
        "[JStr ''1.2.0'', JStr ''1.10.0'', JStr ''1.9.9'']"
        "[\<lparr>major = 1, minor = 2, patch = 0, prerelease = None, build = None\<rparr>,
            \<lparr>major = 1, minor = 10, patch = 0, prerelease = None, build = None\<rparr>,
            \<lparr>major = 1, minor = 9, patch = 9, prerelease = None, build = None\<rparr>]"]
      tags_warning_run
    by simp
  have b: "last (trace (main lookup_failing_env)) = PrintErr ''gh: Server Error (HTTP 500)''
       \<and> exit_code (main lookup_failing_env) = 1"
    using inspected_failures_fatal[of lookup_failing_env _ _ _ "[Exec tags_command]" "''1.10.0''"]
      lookup_failing_run
    by simp
  have p: "last (trace (main push_failing_env)) = PrintErr ''error: failed to push some refs''
       \<and> exit_code (main push_failing_env) = 1"
    using inspected_failures_fatal[of push_failing_env _ _ _ "[Exec tags_command]" "''1.10.0''"]
      push_failing_run
    by simp
  have c: "last (trace (main pr_create_failing_env)) = PrintErr ''pull request create failed''
       \<and> exit_code (main pr_create_failing_env) = 1"
    using inspected_failures_fatal[of pr_create_failing_env _ _ _ "[Exec tags_command]" "''1.10.0''"]
      pr_create_failing_run
    by simp
  have i: "last (trace (main issue_create_failing_env)) = Print ''GraphQL: Resource not accessible''
       \<and> exit_code (main issue_create_failing_env) = 1"
    using inspected_failures_fatal[of issue_create_failing_env _ _ _ "[Exec tags_command]" "''1.10.0''"]
      issue_create_failing_run
    by simp
  from t b p c i tags_warning_run(4) lookup_failing_run(2,3) push_failing_run(2,3)
    pr_create_failing_run(2,3) issue_create_failing_run(2)
  show ?thesis by blast
qed

section \<open>The version order of the library is the standard precedence\<close>






lemma nat_of_dec_Nil: "nat_of_dec [] = 0"
  by (simp add: nat_of_dec_def)

















































section \<open>The claims\<close>



text \<open>
  C2.  When the CDN URL built from the resolved latest version equals the embedded
  constant \<open>DEFAULT_PLOTLY\<close>, the whole run consists of the tag query and one printed
  line: it writes no file, starts no git, pull-request or issue command, and the process
  exits with code 0.
\<close>

theorem C2_up_to_date:
  assumes "get_latest_version e = (t0, Return v)" and "cdn_url v = DEFAULT_PLOTLY e"
  shows "trace (main e) = [Exec tags_command, Print ''Already up to date'']
         \<and> file_writes (trace (main e)) = []
         \<and> commands (trace (main e)) = [tags_command]
         \<and> exit_code (main e) = 0"
  using main_up_to_date[OF assms] latest_trace[OF assms(1)]
  by (simp add: obs_defs)

theorem C2_witness:
  "get_latest_version ((sample_env (JArr []))\<lparr>DEFAULT_PLOTLY := cdn_url ''1.10.0''\<rparr>)
     = ([Exec tags_command], Return ''1.10.0'')
   \<and> cdn_url ''1.10.0'' = DEFAULT_PLOTLY ((sample_env (JArr []))\<lparr>DEFAULT_PLOTLY := cdn_url ''1.10.0''\<rparr>)
   \<and> trace (main ((sample_env (JArr []))\<lparr>DEFAULT_PLOTLY := cdn_url ''1.10.0''\<rparr>))
       = [Exec tags_command, Print ''Already up to date'']
   \<and> exit_code (main ((sample_env (JArr []))\<lparr>DEFAULT_PLOTLY := cdn_url ''1.10.0''\<rparr>)) = 0"
proof -
  let ?e = "(sample_env (JArr []))\<lparr>DEFAULT_PLOTLY := cdn_url ''1.10.0''\<rparr>"
  have l: "get_latest_version ?e = ([Exec tags_command], Return ''1.10.0'')"
    by (simp add: latest_cong[of ?e "sample_env (JArr [])"] sample_latest)
  have d: "cdn_url ''1.10.0'' = DEFAULT_PLOTLY ?e" by simp
  from C2_up_to_date[OF l d] l d show ?thesis by simp
qed

text \<open>
  C3, as amended.  When the new CDN URL is reachable, the branch lookup answers
  not-found (a nonzero exit code with \<open>HTTP 404\<close> on standard error), the pull-request
  listing prints nothing, the changelog update succeeds and \<open>git push\<close> exits with 0,
  then: the run starts \<open>git checkout -b bot/update-cdn-<version>\<close> followed by add,
  commit and push; it writes the page-generator file exactly once, with the first
  occurrence of the old URL replaced by the new one; and it starts exactly one
  \<open>gh pr create\<close>.
\<close>

theorem C3_publish:
  assumes "get_latest_version e = (t0, Return v)" and "cdn_url v \<noteq> DEFAULT_PLOTLY e"
    and "head_status e (cdn_url v) = Some 200"
    and "proc e (branch_command e (branch_name v)) = (out, err, rc)" and "rc \<noteq> 0"
    and "contains ''HTTP 404'' err"
    and "fst (proc e (pr_list_command e (branch_name v))) = []"
    and "changelog_update e v (pr_title v) (GITHUB_WORKSPACE e)"
    and "snd (snd (proc e (push_command (branch_name v)))) = 0"
  shows "git_commands (trace (main e))
           = [checkout_command (branch_name v), add_command, commit_command (pr_title v),
              push_command (branch_name v)]
         \<and> file_writes (trace (main e))
           = [(FILE_PATH e, replace_first (DEFAULT_PLOTLY e) (cdn_url v) (file_text e))]
         \<and> (\<forall>pre post. file_text e = pre @ DEFAULT_PLOTLY e @ post
                \<and> \<not> contains (DEFAULT_PLOTLY e) (pre @ butlast (DEFAULT_PLOTLY e))
              \<longrightarrow> replace_first (DEFAULT_PLOTLY e) (cdn_url v) (file_text e)
                    = pre @ cdn_url v @ post)
         \<and> pr_creations (trace (main e))
           = [pr_create_command (branch_name v) (pr_title v) (pr_body v)]"
proof -
  have t0: "t0 = [Exec tags_command]" using assms(1) by (rule latest_trace)
  note m = main_reachable[OF assms(1-3)]
  note c = create_pr_published[OF assms(4-9)]
  have cs: "commands (trace (main e)) =
     [tags_command, branch_command e (branch_name v), pr_list_command e (branch_name v),
      checkout_command (branch_name v), add_command, commit_command (pr_title v),
      push_command (branch_name v),
      pr_create_command (branch_name v) (pr_title v) (pr_body v)]"
    by (simp add: m t0 c trace_def commands_append)
  have g: "git_commands (trace (main e))
           = [checkout_command (branch_name v), add_command, commit_command (pr_title v),
              push_command (branch_name v)]"
    unfolding git_commands_def cs by (rule git_filter)
  have p: "pr_creations (trace (main e))
           = [pr_create_command (branch_name v) (pr_title v) (pr_body v)]"
    unfolding pr_creations_def cs by (rule pr_create_filter)
  have w: "file_writes (trace (main e))
           = [(FILE_PATH e, replace_first (DEFAULT_PLOTLY e) (cdn_url v) (file_text e))]"
    by (simp add: m t0 trace_def file_writes_append create_pr_no_writes)
  have r: "\<forall>pre post. file_text e = pre @ DEFAULT_PLOTLY e @ post
                \<and> \<not> contains (DEFAULT_PLOTLY e) (pre @ butlast (DEFAULT_PLOTLY e))
              \<longrightarrow> replace_first (DEFAULT_PLOTLY e) (cdn_url v) (file_text e)
                    = pre @ cdn_url v @ post"
    by (auto simp: replace_first_occurrence)
  from g w r p show ?thesis by blast
qed

text \<open>
  The sample environment satisfies every hypothesis of C3 as amended.
\<close>

theorem C3_witness:
  "get_latest_version (sample_env (JArr [])) = ([Exec tags_command], Return ''1.10.0'')
   \<and> cdn_url ''1.10.0'' \<noteq> DEFAULT_PLOTLY (sample_env (JArr []))
   \<and> head_status (sample_env (JArr [])) (cdn_url ''1.10.0'') = Some 200
   \<and> proc (sample_env (JArr [])) (branch_command (sample_env (JArr [])) (branch_name ''1.10.0''))
       = ([], ''gh: Branch not found (HTTP 404)'', 1)
   \<and> contains ''HTTP 404'' ''gh: Branch not found (HTTP 404)''
   \<and> fst (proc (sample_env (JArr [])) (pr_list_command (sample_env (JArr [])) (branch_name ''1.10.0''))) = []
   \<and> changelog_update (sample_env (JArr [])) ''1.10.0'' (pr_title ''1.10.0'')
        (GITHUB_WORKSPACE (sample_env (JArr [])))
   \<and> snd (snd (proc (sample_env (JArr [])) (push_command (branch_name ''1.10.0'')))) = 0
   \<and> git_commands (trace (main (sample_env (JArr []))))
       = [[''git'', ''checkout'', ''-b'', ''bot/update-cdn-1.10.0''], add_command,
          commit_command ''Update Plotly.js CDN to v1.10.0'',
          [''git'', ''push'', ''-u'', ''origin'', ''bot/update-cdn-1.10.0'']]
   \<and> file_writes (trace (main (sample_env (JArr []))))
       = [(''/ws/_page_generator.py'', ''DEFAULT_PLOTLY = https://cdn.plot.ly/plotly-1.10.0.js'')]
   \<and> pr_creations (trace (main (sample_env (JArr []))))
       = [[''gh'', ''pr'', ''create'', ''-B'', ''master'', ''-H'', ''bot/update-cdn-1.10.0'', ''-t'',
           ''Update Plotly.js CDN to v1.10.0'', ''-b'', ''This PR updates the CDN URL to v1.10.0.'']]"
proof -
  let ?e = "sample_env (JArr [])"
  have h1: "get_latest_version ?e = ([Exec tags_command], Return ''1.10.0'')" by (rule sample_latest)
  have h2: "cdn_url ''1.10.0'' \<noteq> DEFAULT_PLOTLY ?e" by (simp add: sample_env_def cdn_url_def)
  have h3: "head_status ?e (cdn_url ''1.10.0'') = Some 200" by (simp add: sample_env_def)
  have h4: "proc ?e (branch_command ?e (branch_name ''1.10.0'')) = ([], ''gh: Branch not found (HTTP 404)'', 1)"
    by (simp add: sample_env_def canned_proc_def cmd_defs)
  have h5: "(1::int) \<noteq> 0" by simp
  have h6: "contains ''HTTP 404'' ''gh: Branch not found (HTTP 404)''" by simp
  have h7: "fst (proc ?e (pr_list_command ?e (branch_name ''1.10.0''))) = []"
    by (simp add: sample_env_def canned_proc_def cmd_defs)
  have h8: "changelog_update ?e ''1.10.0'' (pr_title ''1.10.0'') (GITHUB_WORKSPACE ?e)"
    by (simp add: sample_env_def)
  have h9: "snd (snd (proc ?e (push_command (branch_name ''1.10.0'')))) = 0"
    by (simp add: sample_env_def canned_proc_def cmd_defs)
  from C3_publish[OF h1 h2 h3 h4 h5 h6 h7 h8 h9] h1 h2 h3 h4 h6 h7 h8 h9
  show ?thesis
    by (simp add: sample_env_def cdn_url_def branch_name_def pr_title_def pr_body_def
        checkout_command_def push_command_def pr_create_command_def)
qed

text \<open>
  C3 as stated fails: the URL is reachable and neither branch nor pull request exists,
  but the changelog update reports failure; the run then starts no git command and no
  \<open>gh pr create\<close>, and exits with 1.
\<close>

theorem C3_counterexample:
  "get_latest_version changelog_failing_env = ([Exec tags_command], Return ''1.10.0'')
   \<and> cdn_url ''1.10.0'' \<noteq> DEFAULT_PLOTLY changelog_failing_env
   \<and> head_status changelog_failing_env (cdn_url ''1.10.0'') = Some 200
   \<and> proc changelog_failing_env (branch_command changelog_failing_env (branch_name ''1.10.0''))
       = ([], ''gh: Branch not found (HTTP 404)'', 1)
   \<and> fst (proc changelog_failing_env
            (pr_list_command changelog_failing_env (branch_name ''1.10.0''))) = []
   \<and> git_commands (trace (main changelog_failing_env)) = []
   \<and> pr_creations (trace (main changelog_failing_env)) = []
   \<and> exit_code (main changelog_failing_env) = 1"
proof -
  let ?e = changelog_failing_env
  have h1: "get_latest_version ?e = ([Exec tags_command], Return ''1.10.0'')"
    unfolding changelog_failing_env_def
    by (simp add: latest_cong[of _ "sample_env (JArr [])"] sample_latest)
  have h2: "cdn_url ''1.10.0'' \<noteq> DEFAULT_PLOTLY ?e"
    by (simp add: changelog_failing_env_def sample_env_def cdn_url_def)
  have h3: "head_status ?e (cdn_url ''1.10.0'') = Some 200"
    by (simp add: changelog_failing_env_def sample_env_def)
  have h4: "proc ?e (branch_command ?e (branch_name ''1.10.0''))
              = ([], ''gh: Branch not found (HTTP 404)'', 1)"
    by (simp add: changelog_failing_env_def sample_env_def canned_proc_def cmd_defs)
  have h5: "(1::int) \<noteq> 0" by simp
  have h6: "contains ''HTTP 404'' ''gh: Branch not found (HTTP 404)''" by simp
  have h7: "fst (proc ?e (pr_list_command ?e (branch_name ''1.10.0''))) = []"
    by (simp add: changelog_failing_env_def sample_env_def canned_proc_def cmd_defs)
  have h8: "\<not> changelog_update ?e ''1.10.0'' (pr_title ''1.10.0'') (GITHUB_WORKSPACE ?e)"
    by (simp add: changelog_failing_env_def sample_env_def)
  have m: "main ?e =
     ([Exec tags_command, Head (cdn_url ''1.10.0''), ReadText (FILE_PATH ?e),
       WriteText (FILE_PATH ?e)
         (replace_first (DEFAULT_PLOTLY ?e) (cdn_url ''1.10.0'') (file_text ?e)),
       Exec (branch_command ?e (branch_name ''1.10.0'')),
       Exec (pr_list_command ?e (branch_name ''1.10.0'')),
       ChangelogUpdate ''1.10.0'' (pr_title ''1.10.0'') (GITHUB_WORKSPACE ?e),
       PrintErr ''Failed to update changelog''], SysExit 1)"
    by (simp add: main_reachable[OF h1 h2 h3] create_pr_changelog_failed[OF h4 h5 h6 h7 h8])
  have g: "git_commands (trace (main ?e)) = []"
    by (simp add: m obs_defs cmd_defs)
  have p: "pr_creations (trace (main ?e)) = []"
    by (simp add: m obs_defs cmd_defs)
  have x: "exit_code (main ?e) = 1" by (simp add: m exit_code_def)
  from h1 h2 h3 h4 h7 g p x show ?thesis by blast
qed

text \<open>
  C4.  On a run that reaches the duplicate checks (the new URL differs from the embedded
  one and is reachable): if the branch lookup exits with 0 (the branch exists) or the
  pull-request listing prints anything (a pull request for the branch exists), the run
  starts no git command and no \<open>gh pr create\<close>, and the process exits with code 1.
\<close>

theorem C4_duplicate_aborts:
  assumes "get_latest_version e = (t0, Return v)" and "cdn_url v \<noteq> DEFAULT_PLOTLY e"
    and "head_status e (cdn_url v) = Some 200"
    and "snd (snd (proc e (branch_command e (branch_name v)))) = 0
         \<or> fst (proc e (pr_list_command e (branch_name v))) \<noteq> []"
  shows "git_commands (trace (main e)) = []
         \<and> pr_creations (trace (main e)) = []
         \<and> exit_code (main e) = 1"
proof -
  have t0: "t0 = [Exec tags_command]" using assms(1) by (rule latest_trace)
  note m = main_reachable[OF assms(1-3)]
  from create_pr_abort[OF assms(4)] obtain msg where
    "create_pr e v = ([Exec (branch_command e (branch_name v)), PrintErr msg], SysExit 1)
     \<or> create_pr e v =
        ([Exec (branch_command e (branch_name v)),
          Exec (pr_list_command e (branch_name v)), PrintErr msg], SysExit 1)"
    by blast
  then show ?thesis
  proof
    assume "create_pr e v = ([Exec (branch_command e (branch_name v)), PrintErr msg], SysExit 1)"
    then show ?thesis by (simp add: m t0 obs_defs cmd_defs)
  next
    assume "create_pr e v =
        ([Exec (branch_command e (branch_name v)),
          Exec (pr_list_command e (branch_name v)), PrintErr msg], SysExit 1)"
    then show ?thesis by (simp add: m t0 obs_defs cmd_defs)
  qed
qed

text \<open>
  An environment in which the branch already exists.
\<close>

theorem C4_witness:
  "get_latest_version branch_existing_env = ([Exec tags_command], Return ''1.10.0'')
   \<and> cdn_url ''1.10.0'' \<noteq> DEFAULT_PLOTLY branch_existing_env
   \<and> head_status branch_existing_env (cdn_url ''1.10.0'') = Some 200
   \<and> snd (snd (proc branch_existing_env
                 (branch_command branch_existing_env (branch_name ''1.10.0'')))) = 0
   \<and> git_commands (trace (main branch_existing_env)) = []
   \<and> pr_creations (trace (main branch_existing_env)) = []
   \<and> exit_code (main branch_existing_env) = 1"
proof -
  let ?e = branch_existing_env
  have h1: "get_latest_version ?e = ([Exec tags_command], Return ''1.10.0'')"
    unfolding branch_existing_env_def
    by (simp add: latest_answering sample_latest cmd_defs)
  have h2: "cdn_url ''1.10.0'' \<noteq> DEFAULT_PLOTLY ?e"
    by (simp add: branch_existing_env_def answering_def sample_env_def cdn_url_def)
  have h3: "head_status ?e (cdn_url ''1.10.0'') = Some 200"
    by (simp add: branch_existing_env_def answering_def sample_env_def)
  have h4: "snd (snd (proc ?e (branch_command ?e (branch_name ''1.10.0'')))) = 0"
    by (simp add: branch_existing_env_def answering_def sample_env_def branch_command_def)
  from C4_duplicate_aborts[OF h1 h2 h3 disjI1[OF h4]] h1 h2 h3 h4 show ?thesis by blast
qed

text \<open>
  C5.  The claim: for every shelled-out tracker or version-control command started during
  a run, a nonzero exit code or populated standard error is fatal; the error is printed
  and the process exits with code 1.  The script checks the exit code of \<open>git push\<close> and
  of \<open>gh pr create\<close>, but it discards the answers of \<open>git checkout\<close>, \<open>git add\<close> and
  \<open>git commit\<close> and reads only the standard output of \<open>gh pr list\<close>.  The two runs
  below show the consequence.  In the first the pull-request listing fails (exit code 1,
  \<open>HTTP 500\<close> on standard error, no output): the script takes the empty output for ``no
  pull request exists'', never prints the error, goes on to commit, push and create a
  pull request, and ends with exit code 0.  In the second \<open>git commit\<close> fails with exit
  code 128: the error is never printed, the push and the pull request follow, and the
  exit code is 0.
\<close>

theorem C5_uninspected_failures:
  "(pr_list_command pr_list_failing_env (branch_name ''1.10.0'')
      \<in> set (commands (trace (main pr_list_failing_env)))
    \<and> returncode_of pr_list_failing_env
         (pr_list_command pr_list_failing_env (branch_name ''1.10.0'')) = 1
    \<and> stderr_of pr_list_failing_env
         (pr_list_command pr_list_failing_env (branch_name ''1.10.0''))
        = ''HTTP 500: Internal Server Error''
    \<and> PrintErr ''HTTP 500: Internal Server Error'' \<notin> set (trace (main pr_list_failing_env))
    \<and> Print ''HTTP 500: Internal Server Error'' \<notin> set (trace (main pr_list_failing_env))
    \<and> git_commands (trace (main pr_list_failing_env))
        = [checkout_command (branch_name ''1.10.0''), add_command,
           commit_command (pr_title ''1.10.0''), push_command (branch_name ''1.10.0'')]
    \<and> pr_creations (trace (main pr_list_failing_env))
        = [pr_create_command (branch_name ''1.10.0'') (pr_title ''1.10.0'') (pr_body ''1.10.0'')]
    \<and> exit_code (main pr_list_failing_env) = 0)
   \<and> (commit_command (pr_title ''1.10.0'') \<in> set (commands (trace (main commit_failing_env)))
    \<and> returncode_of commit_failing_env (commit_command (pr_title ''1.10.0'')) = 128
    \<and> stderr_of commit_failing_env (commit_command (pr_title ''1.10.0''))
        = ''fatal: unable to write new index file''
    \<and> PrintErr ''fatal: unable to write new index file'' \<notin> set (trace (main commit_failing_env))
    \<and> Print ''fatal: unable to write new index file'' \<notin> set (trace (main commit_failing_env))
    \<and> pr_creations (trace (main commit_failing_env))
        = [pr_create_command (branch_name ''1.10.0'') (pr_title ''1.10.0'') (pr_body ''1.10.0'')]
    \<and> exit_code (main commit_failing_env) = 0)"
  by code_simp







text \<open>
  C9.  On a run that reaches the branch lookup, its answer is classified by the exit
  code and the text \<open>HTTP 404\<close> alone: exit code 0 means the branch exists, and the run
  stops with exit code 1; a nonzero exit code with \<open>HTTP 404\<close> in standard error means
  the branch is absent, and the run goes on to list pull requests; a nonzero exit code
  with any other standard error prints that text and stops with exit code 1.
\<close>

theorem C9_branch_lookup:
  assumes "get_latest_version e = (t0, Return v)" and "cdn_url v \<noteq> DEFAULT_PLOTLY e"
    and "head_status e (cdn_url v) = Some 200"
    and "proc e (branch_command e (branch_name v)) = (out, err, rc)"
  shows "(rc = 0 \<longrightarrow>
            trace (main e) =
              [Exec tags_command, Head (cdn_url v), ReadText (FILE_PATH e),
               WriteText (FILE_PATH e) (replace_first (DEFAULT_PLOTLY e) (cdn_url v) (file_text e)),
               Exec (branch_command e (branch_name v)),
               PrintErr (''The branch '' @ branch_name v @ '' already exists'')]
            \<and> exit_code (main e) = 1)
         \<and> (rc \<noteq> 0 \<and> contains ''HTTP 404'' err \<longrightarrow>
              (\<exists>rest. trace (main e) =
                 [Exec tags_command, Head (cdn_url v), ReadText (FILE_PATH e),
                  WriteText (FILE_PATH e) (replace_first (DEFAULT_PLOTLY e) (cdn_url v) (file_text e)),
                  Exec (branch_command e (branch_name v)),
                  Exec (pr_list_command e (branch_name v))] @ rest))
         \<and> (rc \<noteq> 0 \<and> \<not> contains ''HTTP 404'' err \<longrightarrow>
              trace (main e) =
                [Exec tags_command, Head (cdn_url v), ReadText (FILE_PATH e),
                 WriteText (FILE_PATH e) (replace_first (DEFAULT_PLOTLY e) (cdn_url v) (file_text e)),
                 Exec (branch_command e (branch_name v)), PrintErr err]
              \<and> exit_code (main e) = 1)"
proof -
  have t0: "t0 = [Exec tags_command]" using assms(1) by (rule latest_trace)
  note m = main_reachable[OF assms(1-3)]
  have a: "rc = 0 \<longrightarrow>
            trace (main e) =
              [Exec tags_command, Head (cdn_url v), ReadText (FILE_PATH e),
               WriteText (FILE_PATH e) (replace_first (DEFAULT_PLOTLY e) (cdn_url v) (file_text e)),
               Exec (branch_command e (branch_name v)),
               PrintErr (''The branch '' @ branch_name v @ '' already exists'')]
            \<and> exit_code (main e) = 1"
  proof
    assume "rc = 0"
    with assms(4) have "proc e (branch_command e (branch_name v)) = (out, err, 0)" by simp
    from create_pr_branch_exists[OF this] show
      "trace (main e) =
              [Exec tags_command, Head (cdn_url v), ReadText (FILE_PATH e),
               WriteText (FILE_PATH e) (replace_first (DEFAULT_PLOTLY e) (cdn_url v) (file_text e)),
               Exec (branch_command e (branch_name v)),
               PrintErr (''The branch '' @ branch_name v @ '' already exists'')]
            \<and> exit_code (main e) = 1"
      by (simp add: m t0 trace_def exit_code_def)
  qed
  have b: "rc \<noteq> 0 \<and> contains ''HTTP 404'' err \<longrightarrow>
              (\<exists>rest. trace (main e) =
                 [Exec tags_command, Head (cdn_url v), ReadText (FILE_PATH e),
                  WriteText (FILE_PATH e) (replace_first (DEFAULT_PLOTLY e) (cdn_url v) (file_text e)),
                  Exec (branch_command e (branch_name v)),
                  Exec (pr_list_command e (branch_name v))] @ rest)"
  proof
    assume "rc \<noteq> 0 \<and> contains ''HTTP 404'' err"
    then have "rc \<noteq> 0" and "contains ''HTTP 404'' err" by simp_all
    from create_pr_proceeds[OF assms(4) this] obtain rest where
      "fst (create_pr e v) =
         Exec (branch_command e (branch_name v)) # Exec (pr_list_command e (branch_name v)) # rest"
      by blast
    then show "\<exists>rest. trace (main e) =
                 [Exec tags_command, Head (cdn_url v), ReadText (FILE_PATH e),
                  WriteText (FILE_PATH e) (replace_first (DEFAULT_PLOTLY e) (cdn_url v) (file_text e)),
                  Exec (branch_command e (branch_name v)),
                  Exec (pr_list_command e (branch_name v))] @ rest"
      by (simp add: m t0 trace_def)
  qed
  have c: "rc \<noteq> 0 \<and> \<not> contains ''HTTP 404'' err \<longrightarrow>
              trace (main e) =
                [Exec tags_command, Head (cdn_url v), ReadText (FILE_PATH e),
                 WriteText (FILE_PATH e) (replace_first (DEFAULT_PLOTLY e) (cdn_url v) (file_text e)),
                 Exec (branch_command e (branch_name v)), PrintErr err]
              \<and> exit_code (main e) = 1"
  proof
    assume "rc \<noteq> 0 \<and> \<not> contains ''HTTP 404'' err"
    then have "rc \<noteq> 0" and "\<not> contains ''HTTP 404'' err" by simp_all
    from create_pr_lookup_failed[OF assms(4) this] show
      "trace (main e) =
                [Exec tags_command, Head (cdn_url v), ReadText (FILE_PATH e),
                 WriteText (FILE_PATH e) (replace_first (DEFAULT_PLOTLY e) (cdn_url v) (file_text e)),
                 Exec (branch_command e (branch_name v)), PrintErr err]
              \<and> exit_code (main e) = 1"
      by (simp add: m t0 trace_def exit_code_def)
  qed
  from a b c show ?thesis by blast
qed

text \<open>
  One environment for each of the three answers.
\<close>

theorem C9_witness:
  "exit_code (main branch_existing_env) = 1
   \<and> last (trace (main branch_existing_env))
       = PrintErr ''The branch bot/update-cdn-1.10.0 already exists''
   \<and> exit_code (main lookup_failing_env) = 1
   \<and> last (trace (main lookup_failing_env)) = PrintErr ''gh: Server Error (HTTP 500)''
   \<and> proc (sample_env (JArr [])) (branch_command (sample_env (JArr [])) (branch_name ''1.10.0''))
       = ([], ''gh: Branch not found (HTTP 404)'', 1)
   \<and> (\<exists>rest. trace (main (sample_env (JArr []))) =
         [Exec tags_command, Head (cdn_url ''1.10.0''), ReadText (FILE_PATH (sample_env (JArr []))),
          WriteText (FILE_PATH (sample_env (JArr [])))
            (replace_first (DEFAULT_PLOTLY (sample_env (JArr []))) (cdn_url ''1.10.0'')
               (file_text (sample_env (JArr [])))),
          Exec (branch_command (sample_env (JArr [])) (branch_name ''1.10.0'')),
          Exec (pr_list_command (sample_env (JArr [])) (branch_name ''1.10.0''))] @ rest)"
proof -
  note a = sample_reach[OF branch_existing_env_def]
  note b = sample_reach[OF lookup_failing_env_def]
  have s1: "get_latest_version (sample_env (JArr [])) = ([Exec tags_command], Return ''1.10.0'')"
    by (rule sample_latest)
  have s2: "cdn_url ''1.10.0'' \<noteq> DEFAULT_PLOTLY (sample_env (JArr []))"
    by (simp add: sample_env_def cdn_url_def)
  have s3: "head_status (sample_env (JArr [])) (cdn_url ''1.10.0'') = Some 200"
    by (simp add: sample_env_def)
  have s4: "proc (sample_env (JArr [])) (branch_command (sample_env (JArr [])) (branch_name ''1.10.0''))
       = ([], ''gh: Branch not found (HTTP 404)'', 1)"
    by (simp add: sample_env_def canned_proc_def cmd_defs)
  have c1: "exit_code (main branch_existing_env) = 1
     \<and> last (trace (main branch_existing_env)) = PrintErr ''The branch bot/update-cdn-1.10.0 already exists''"
    using C9_branch_lookup[OF a] by (simp add: branch_name_def)
  have c2: "exit_code (main lookup_failing_env) = 1
     \<and> last (trace (main lookup_failing_env)) = PrintErr ''gh: Server Error (HTTP 500)''"
    using C9_branch_lookup[OF b] by simp
  have c3: "\<exists>rest. trace (main (sample_env (JArr []))) =
         [Exec tags_command, Head (cdn_url ''1.10.0''), ReadText (FILE_PATH (sample_env (JArr []))),
          WriteText (FILE_PATH (sample_env (JArr [])))
            (replace_first (DEFAULT_PLOTLY (sample_env (JArr []))) (cdn_url ''1.10.0'')
               (file_text (sample_env (JArr [])))),
          Exec (branch_command (sample_env (JArr [])) (branch_name ''1.10.0'')),
          Exec (pr_list_command (sample_env (JArr [])) (branch_name ''1.10.0''))] @ rest"
    using C9_branch_lookup[OF s1 s2 s3 s4] by simp
  from c1 c2 s4 c3 show ?thesis by blast
qed

text \<open>
  C10.  When the new CDN URL is reachable, the page-generator file is written (old URL
  replaced by the new one) before \<open>create_pr\<close> starts, whose first effect is the branch
  lookup.  So when the run stops with exit code 1 because the branch or a pull request
  exists, the file has been written all the same, and its text has changed whenever the
  old URL occurred in it.
\<close>

theorem C10_file_rewritten_first:
  assumes "get_latest_version e = (t0, Return v)" and "cdn_url v \<noteq> DEFAULT_PLOTLY e"
    and "head_status e (cdn_url v) = Some 200"
  shows "trace (main e) =
           [Exec tags_command, Head (cdn_url v), ReadText (FILE_PATH e),
            WriteText (FILE_PATH e) (replace_first (DEFAULT_PLOTLY e) (cdn_url v) (file_text e))]
           @ trace (create_pr e v)
         \<and> (\<exists>rest. trace (create_pr e v) = Exec (branch_command e (branch_name v)) # rest)
         \<and> file_writes (trace (main e))
           = [(FILE_PATH e, replace_first (DEFAULT_PLOTLY e) (cdn_url v) (file_text e))]
         \<and> (contains (DEFAULT_PLOTLY e) (file_text e) \<longrightarrow>
              replace_first (DEFAULT_PLOTLY e) (cdn_url v) (file_text e) \<noteq> file_text e)
         \<and> (snd (snd (proc e (branch_command e (branch_name v)))) = 0
              \<or> fst (proc e (pr_list_command e (branch_name v))) \<noteq> [] \<longrightarrow>
            exit_code (main e) = 1)"
proof -
  have t0: "t0 = [Exec tags_command]" using assms(1) by (rule latest_trace)
  note m = main_reachable[OF assms(1-3)]
  have a: "trace (main e) =
           [Exec tags_command, Head (cdn_url v), ReadText (FILE_PATH e),
            WriteText (FILE_PATH e) (replace_first (DEFAULT_PLOTLY e) (cdn_url v) (file_text e))]
           @ trace (create_pr e v)"
    by (simp add: m t0 trace_def)
  have b: "\<exists>rest. trace (create_pr e v) = Exec (branch_command e (branch_name v)) # rest"
    unfolding trace_def by (rule create_pr_starts)
  have c: "file_writes (trace (main e))
           = [(FILE_PATH e, replace_first (DEFAULT_PLOTLY e) (cdn_url v) (file_text e))]"
    by (simp add: m t0 trace_def file_writes_append create_pr_no_writes)
  have d: "contains (DEFAULT_PLOTLY e) (file_text e) \<longrightarrow>
              replace_first (DEFAULT_PLOTLY e) (cdn_url v) (file_text e) \<noteq> file_text e"
    using assms(2) replace_first_changes[of "DEFAULT_PLOTLY e" "file_text e" "cdn_url v"]
    by auto
  have x: "snd (snd (proc e (branch_command e (branch_name v)))) = 0
              \<or> fst (proc e (pr_list_command e (branch_name v))) \<noteq> [] \<longrightarrow>
            exit_code (main e) = 1"
  proof
    assume "snd (snd (proc e (branch_command e (branch_name v)))) = 0
              \<or> fst (proc e (pr_list_command e (branch_name v))) \<noteq> []"
    from create_pr_abort[OF this] have "snd (create_pr e v) = SysExit 1" by auto
    then show "exit_code (main e) = 1" by (simp add: m exit_code_def)
  qed
  from a b c d x show ?thesis by blast
qed

text \<open>
  The environment in which the branch already exists: the file is rewritten, and the
  run exits with 1.
\<close>

theorem C10_witness:
  "get_latest_version branch_existing_env = ([Exec tags_command], Return ''1.10.0'')
   \<and> cdn_url ''1.10.0'' \<noteq> DEFAULT_PLOTLY branch_existing_env
   \<and> head_status branch_existing_env (cdn_url ''1.10.0'') = Some 200
   \<and> snd (snd (proc branch_existing_env
                 (branch_command branch_existing_env (branch_name ''1.10.0'')))) = 0
   \<and> contains (DEFAULT_PLOTLY branch_existing_env) (file_text branch_existing_env)
   \<and> replace_first (DEFAULT_PLOTLY branch_existing_env) (cdn_url ''1.10.0'')
        (file_text branch_existing_env)
       = ''DEFAULT_PLOTLY = https://cdn.plot.ly/plotly-1.10.0.js''
   \<and> FILE_PATH branch_existing_env = ''/ws/_page_generator.py''
   \<and> file_writes (trace (main branch_existing_env))
       = [(FILE_PATH branch_existing_env,
           replace_first (DEFAULT_PLOTLY branch_existing_env) (cdn_url ''1.10.0'')
             (file_text branch_existing_env))]
   \<and> replace_first (DEFAULT_PLOTLY branch_existing_env) (cdn_url ''1.10.0'')
        (file_text branch_existing_env) \<noteq> file_text branch_existing_env
   \<and> exit_code (main branch_existing_env) = 1"
proof -
  let ?e = branch_existing_env
  note a = sample_reach[OF branch_existing_env_def]
  have h4: "snd (snd (proc ?e (branch_command ?e (branch_name ''1.10.0'')))) = 0"
    by (simp add: a(4))
  have h5: "contains (DEFAULT_PLOTLY ?e) (file_text ?e)"
    by (simp add: branch_existing_env_def answering_def sample_env_def cdn_url_def)
  have h6: "replace_first (DEFAULT_PLOTLY ?e) (cdn_url ''1.10.0'') (file_text ?e)
       = ''DEFAULT_PLOTLY = https://cdn.plot.ly/plotly-1.10.0.js''"
    by (simp add: branch_existing_env_def answering_def sample_env_def cdn_url_def)
  have h7: "FILE_PATH ?e = ''/ws/_page_generator.py''"
    by (simp add: branch_existing_env_def answering_def sample_env_def)
  from C10_file_rewritten_first[OF a(1-3)] a(1-3) h4 h5 h6 h7 show ?thesis by blast
qed

end
